theory Spec2Isabelle
  imports Main
begin

section \<open>C integer types\<close>

text \<open>
  The tool is C on an LP64 target: \<open>int\<close> has 32 bits, \<open>size_t\<close> and \<open>long\<close> have 64,
  \<open>uint32_t\<close> has 32. Values are kept as mathematical integers and every conversion the
  source performs is written out as a wrap into the range of the target type.
\<close>

definition INT_MAX :: int where
  "INT_MAX = 2147483647"

definition UINT32_MAX :: int where
  "UINT32_MAX = 4294967295"

definition to_int :: "int \<Rightarrow> int" where
  \<comment> \<open>conversion to (or arithmetic in) a 32-bit two's complement \<open>int\<close>\<close>
  "to_int x = (x + 2147483648) mod 4294967296 - 2147483648"

definition to_size_t :: "int \<Rightarrow> nat" where
  \<comment> \<open>conversion to (or arithmetic in) the 64-bit unsigned \<open>size_t\<close>\<close>
  "to_size_t x = nat (x mod 18446744073709551616)"

definition to_uint32 :: "int \<Rightarrow> int" where
  \<comment> \<open>conversion to \<open>uint32_t\<close>\<close>
  "to_uint32 x = x mod 4294967296"

definition NUL :: char where
  \<comment> \<open>the string terminator\<close>
  "NUL = CHR 0x00"

definition newline :: char where
  "newline = CHR 0x0A"

section \<open>Outcomes and memory blocks\<close>

text \<open>
  A C function of the tool either returns, leaves the process through \<open>exit\<close>, blocks for
  ever on a lock nobody releases, or steps outside the memory it owns.
\<close>

datatype 'a outcome = Return 'a | Exit int | Hang | Fault

text \<open>
  A block returned by \<open>malloc\<close> is a list of bytes; a byte nobody has written yet is
  \<open>None\<close>. A write that does not fit the block has no result.
\<close>

type_synonym block = "char option list"

definition malloc :: "bool \<Rightarrow> nat \<Rightarrow> block option" where
  \<comment> \<open>the flag says whether the allocator has the memory; \<open>None\<close> is the NULL result\<close>
  "malloc ok n = (if ok then Some (replicate n None) else None)"

definition realloc :: "bool \<Rightarrow> block \<Rightarrow> nat \<Rightarrow> block option" where
  \<comment> \<open>the old contents are kept up to the smaller of the two sizes\<close>
  "realloc ok blk n = (if ok then Some (take n blk @ replicate (n - length blk) None) else None)"

definition memcpy :: "block \<Rightarrow> int \<Rightarrow> string \<Rightarrow> block option" where
  \<comment> \<open>\<open>memcpy(&blk[off], src, n)\<close> with \<open>n\<close> the length of \<open>src\<close>\<close>
  "memcpy blk off src =
     (if 0 \<le> off \<and> nat off + length src \<le> length blk
      then Some (take (nat off) blk @ map Some src @ drop (nat off + length src) blk)
      else None)"

definition store_byte :: "block \<Rightarrow> int \<Rightarrow> char \<Rightarrow> block option" where
  \<comment> \<open>\<open>blk[idx] = c\<close>\<close>
  "store_byte blk idx c =
     (if 0 \<le> idx \<and> nat idx < length blk then Some (blk[nat idx := Some c]) else None)"

definition block_string :: "block \<Rightarrow> string" where
  \<comment> \<open>what \<open>printf("%s", blk)\<close> shows: the bytes before the first terminator\<close>
  "block_string blk = map the (takeWhile (\<lambda>b. b \<noteq> None \<and> b \<noteq> Some NUL) blk)"

section \<open>Stream aggregator: \<open>stdio_callback\<close>\<close>

text \<open>
  The globals \<open>iof_data\<close> (NULL at program start) and \<open>iof_size\<close> (an \<open>int\<close>, 0 at
  program start). A payload is the byte string \<open>payload->bytes\<close>, and \<open>payload->size\<close>
  (a \<open>size_t\<close>) is its length. The handler makes one allocation per chunk; its first
  argument says whether that allocation succeeds. When it does not, the source prints a
  diagnostic and calls \<open>exit(1)\<close>.
\<close>

record iof_buf =
  iof_data :: "block option"
  iof_size :: int

definition iof_init :: iof_buf where
  "iof_init = \<lparr>iof_data = None, iof_size = 0\<rparr>"

definition stdio_callback :: "bool \<Rightarrow> string \<Rightarrow> iof_buf \<Rightarrow> iof_buf outcome" where
  "stdio_callback alloc_ok payload g =
     (case iof_data g of
        None \<Rightarrow>
          (let sz = to_int (int (length payload)) in
           case malloc alloc_ok (to_size_t (to_int (sz + 1))) of
             None \<Rightarrow> Exit 1
           | Some blk \<Rightarrow>
               (case memcpy blk 0 payload of
                  None \<Rightarrow> Fault
                | Some blk1 \<Rightarrow>
                    (case store_byte blk1 (int (length payload)) NUL of
                       None \<Rightarrow> Fault
                     | Some blk2 \<Rightarrow> Return \<lparr>iof_data = Some blk2, iof_size = sz\<rparr>)))
      | Some old \<Rightarrow>
          (case realloc alloc_ok old (to_size_t (iof_size g + int (length payload) + 1)) of
             None \<Rightarrow> Exit 1
           | Some blk \<Rightarrow>
               (case memcpy blk (iof_size g) payload of
                  None \<Rightarrow> Fault
                | Some blk1 \<Rightarrow>
                    (let sz = to_int (iof_size g + int (length payload)) in
                     case store_byte blk1 sz NUL of
                       None \<Rightarrow> Fault
                     | Some blk2 \<Rightarrow> Return \<lparr>iof_data = Some blk2, iof_size = sz\<rparr>))))"

text \<open>
  The chunks of one run, in arrival order; each comes with the answer the allocator gives
  to the allocation the handler makes for it. The first chunk that does not return ends
  the run.
\<close>

fun deliver :: "iof_buf \<Rightarrow> (bool \<times> string) list \<Rightarrow> iof_buf outcome" where
  "deliver g [] = Return g"
| "deliver g ((ok, payload) # cs) =
     (case stdio_callback ok payload g of
        Return g' \<Rightarrow> deliver g' cs
      | Exit n \<Rightarrow> Exit n
      | Hang \<Rightarrow> Hang
      | Fault \<Rightarrow> Fault)"

definition payloads :: "(bool \<times> string) list \<Rightarrow> string" where
  "payloads cs = concat (map snd cs)"

section \<open>PMIx data\<close>

text \<open>
  The attributes the tool exchanges with the control plane are key and value pairs. The
  keys are the string constants of the PMIx header; the tool compares them with
  \<open>strncmp\<close> over the full key length, which for keys is equality, so a key is a
  constructor here. A value is a type tag and the member of the union stored with it;
  \<open>V_pointer None\<close> and \<open>V_proc None\<close> hold a NULL pointer. A rank is a \<open>uint32_t\<close>.
\<close>

type_synonym addr = nat

record pmix_proc_t =
  proc_nspace :: string
  proc_rank :: int

datatype pmix_key =
    PMIX_EVENT_RETURN_OBJECT | PMIX_EXIT_CODE | PMIX_EVENT_AFFECTED_PROC
  | PMIX_HOST | PMIX_MAPBY | PMIX_DEBUGGER_DAEMONS | PMIX_DEBUG_JOB
  | PMIX_FWD_STDOUT | PMIX_FWD_STDERR | PMIX_REQUESTOR_IS_TOOL
  | PMIX_IOF_REDIRECT | PMIX_LAUNCHER | PMIX_NSPACE | PMIX_RANK | PMIX_QUERY_NAMESPACES
  | Key string

datatype pmix_value =
    V_string string | V_integer int | V_int32 int | V_bool bool
  | V_pointer "addr option" | V_proc "pmix_proc_t option"

record pmix_info_t =
  info_key :: pmix_key
  info_value :: pmix_value

definition PMIX_SUCCESS :: int where
  \<comment> \<open>Modelled from the spec: the PMIx header is not among the sources; the spec gives the
      status of success as 0 and every other status as nonzero\<close>
  "PMIX_SUCCESS = 0"

text \<open>
  What neither the sources nor the spec determine is a parameter of the model: the other
  constants of the PMIx header that the tool uses by name, the string that
  \<open>PMIx_Error_string\<close> gives for a status, and what the members \<open>ptr\<close>, \<open>integer\<close> and
  \<open>proc\<close> of the value union read as when another member was the one stored, which
  depends on the layout of the union.
\<close>

record pmix_h =
  PMIX_MAX_NSLEN :: nat
  PMIX_RANK_WILDCARD :: int
  PMIX_ERR_JOB_TERMINATED :: int
  PMIX_EVENT_ACTION_COMPLETE :: int
  PMIx_Error_string :: "int \<Rightarrow> string"
  other_as_ptr :: "pmix_value \<Rightarrow> addr option"
  other_as_integer :: "pmix_value \<Rightarrow> int"
  other_as_proc :: "pmix_value \<Rightarrow> pmix_proc_t option"

text \<open>
  The reads \<open>value.data.ptr\<close>, \<open>value.data.integer\<close> and \<open>value.data.proc\<close>. None of
  them looks at the type tag.
\<close>

definition data_ptr :: "pmix_h \<Rightarrow> pmix_value \<Rightarrow> addr option" where
  "data_ptr h v = (case v of V_pointer p \<Rightarrow> p | _ \<Rightarrow> other_as_ptr h v)"

definition data_integer :: "pmix_h \<Rightarrow> pmix_value \<Rightarrow> int" where
  "data_integer h v = (case v of V_integer c \<Rightarrow> c | _ \<Rightarrow> other_as_integer h v)"

definition data_proc :: "pmix_h \<Rightarrow> pmix_value \<Rightarrow> pmix_proc_t option" where
  "data_proc h v = (case v of V_proc p \<Rightarrow> p | _ \<Rightarrow> other_as_proc h v)"

section \<open>Locks\<close>

text \<open>
  Modelled from the spec: the header \<open>debugger.h\<close> with \<open>mylock_t\<close>, \<open>myrel_t\<close> and the
  macros \<open>DEBUG_CONSTRUCT_LOCK\<close>, \<open>DEBUG_WAKEUP_THREAD\<close>, \<open>DEBUG_WAIT_THREAD\<close> and
  \<open>DEBUG_DESTRUCT_LOCK\<close> is not among the sources. The spec's Wait-Lock is a signaled
  flag and a status: constructing it gives an unsignaled lock, signaling sets the flag
  and wakes the waiter, and waiting blocks until the flag is set. The status is stored by
  the callback before it signals, as the source does. The Termination Record is the
  namespace of the watched daemon, a Wait-Lock, the exit code and its presence flag.
\<close>

record mylock_t =
  signaled :: bool
  lock_status :: int

record myrel_t =
  rel_lock :: mylock_t
  rel_nspace :: string
  rel_exit_code :: int
  rel_exit_code_given :: bool

definition DEBUG_CONSTRUCT_LOCK :: mylock_t where
  "DEBUG_CONSTRUCT_LOCK = \<lparr>signaled = False, lock_status = PMIX_SUCCESS\<rparr>"

definition DEBUG_WAKEUP_THREAD :: "mylock_t \<Rightarrow> mylock_t" where
  "DEBUG_WAKEUP_THREAD l = l\<lparr>signaled := True\<rparr>"

section \<open>State of the tool and what it does to the outside\<close>

text \<open>
  The file-scope variables of \<open>attach.c\<close>, and the lock objects that callbacks reach
  through the pointers they are handed: \<open>locks\<close> holds the live \<open>mylock_t\<close> objects and
  \<open>rels\<close> the live \<open>myrel_t\<close> objects, by address. \<open>application_namespace\<close> is the
  character array of \<open>PMIX_MAX_NSLEN + 1\<close> bytes.
\<close>

record tool =
  application_namespace :: string
  iof :: iof_buf
  iof_registered :: int
  iof_handler_id :: nat
  locks :: "addr \<Rightarrow> mylock_t option"
  rels :: "addr \<Rightarrow> myrel_t option"

definition tool_start :: "pmix_h \<Rightarrow> tool" where
  \<comment> \<open>static storage is zero at program start\<close>
  "tool_start h =
     \<lparr>application_namespace = replicate (PMIX_MAX_NSLEN h + 1) NUL, iof = iof_init,
      iof_registered = 0, iof_handler_id = 0, locks = (\<lambda>a. None), rels = (\<lambda>a. None)\<rparr>"

datatype lock_ref = Lock addr | Rel_lock addr

datatype call =
    PMIx_tool_init
  | PMIx_tool_finalize
  | PMIx_Query_info "pmix_key list" "pmix_info_t list"
  | PMIx_Spawn "pmix_info_t list"
  | PMIx_IOF_pull pmix_proc_t "pmix_info_t list"
  | PMIx_Register_event_handler "int list" "pmix_info_t list"
  | PMIx_IOF_deregister nat

text \<open>
  What a run leaves behind, in order: calls into the control plane, diagnostics on the
  error stream, the block of forwarded output on standard output, the wake-up of a lock,
  the completion reported to the event pipeline (the \<open>cbfunc\<close> of a notification with
  its status), and the start of a blocking wait. The progress lines the source prints to
  standard output are left out. A diagnostic on the error stream is recorded by the fixed
  text that identifies it, without its final newline and without the namespaces, ranks
  and numbers formatted into it; the string that \<open>PMIx_Error_string\<close> gives for the
  status of a failed call is kept, since it is how that status is reported.
\<close>

datatype action =
    Call call
  | Stderr string
  | Stdout string
  | Wakeup lock_ref
  | Event_done int
  | Wait lock_ref

section \<open>The control plane as seen by one run\<close>

text \<open>
  The PMIx library is outside the tool. One run of the tool meets one sequence of answers
  from it: the status each call returns, the data it hands back, and the callbacks it
  delivers while the tool waits. A registration callback that never comes is \<open>None\<close>.
  The termination event is the attribute list handed to \<open>release_fn\<close> together with
  whether a \<open>cbfunc\<close> comes with it.
\<close>

record env =
  init_rc :: int
  default_reg :: "(int \<times> nat) option"
  argv_append_rc :: int
  query_rc :: int
  query_data :: "pmix_info_t list"
  spawn_rc :: int
  spawn_nspace :: string
  iof_reg :: "(int \<times> nat) option"
  evhdlr_reg :: "(int \<times> nat) option"
  chunks :: "(bool \<times> string) list"
  term_event :: "(pmix_info_t list \<times> bool) option"
  iof_dereg_rc :: int

section \<open>Callbacks\<close>

subsection \<open>\<open>release_fn\<close>\<close>

text \<open>
  The loop over the attributes keeps the last return object, the last exit code and the
  last affected process it meets; it reads the member of the union that goes with the
  key and never the type tag. The local \<open>exit_code\<close> is indeterminate until \<open>found\<close> is
  set and is read only then.
\<close>

record scan =
  scan_lock :: "addr option"
  scan_found :: bool
  scan_exit_code :: int
  scan_affected :: "pmix_proc_t option"

definition scan_start :: scan where
  "scan_start = \<lparr>scan_lock = None, scan_found = False, scan_exit_code = 0, scan_affected = None\<rparr>"

fun release_scan :: "pmix_h \<Rightarrow> pmix_info_t list \<Rightarrow> scan \<Rightarrow> scan" where
  "release_scan h [] s = s"
| "release_scan h (i # info) s =
     (if info_key i = PMIX_EVENT_RETURN_OBJECT then
        release_scan h info (s\<lparr>scan_lock := data_ptr h (info_value i)\<rparr>)
      else if info_key i = PMIX_EXIT_CODE then
        release_scan h info (s\<lparr>scan_exit_code := data_integer h (info_value i), scan_found := True\<rparr>)
      else if info_key i = PMIX_EVENT_AFFECTED_PROC then
        release_scan h info (s\<lparr>scan_affected := data_proc h (info_value i)\<rparr>)
      else release_scan h info s)"

definition event_done :: "bool \<Rightarrow> int \<Rightarrow> action list" where
  \<comment> \<open>\<open>if (NULL != cbfunc) cbfunc(status, NULL, 0, NULL, NULL, cbdata)\<close>\<close>
  "event_done cbfunc status = (if cbfunc then [Event_done status] else [])"

definition release_fn ::
  "pmix_h \<Rightarrow> pmix_info_t list \<Rightarrow> bool \<Rightarrow> tool \<Rightarrow> action list \<times> unit outcome \<times> tool" where
  "release_fn h info cbfunc g =
     (let s = release_scan h info scan_start in
      case scan_lock s of
        None \<Rightarrow>
          (Stderr ''LOCK WASN'T RETURNED IN RELEASE CALLBACK'' # event_done cbfunc PMIX_SUCCESS,
           Return (), g)
      | Some a \<Rightarrow>
          (case rels g a of
             None \<Rightarrow> ([], Fault, g)
           | Some r \<Rightarrow>
               (let r1 = (if scan_found s
                          then r\<lparr>rel_exit_code := scan_exit_code s, rel_exit_code_given := True\<rparr>
                          else r);
                    r2 = r1\<lparr>rel_lock := DEBUG_WAKEUP_THREAD (rel_lock r1)\<rparr>;
                    r3 = r2\<lparr>rel_lock := DEBUG_WAKEUP_THREAD (rel_lock r2)\<rparr>
                in (Wakeup (Rel_lock a)
                      # event_done cbfunc (PMIX_EVENT_ACTION_COMPLETE h) @ [Wakeup (Rel_lock a)],
                    Return (), g\<lparr>rels := (rels g)(a \<mapsto> r3)\<rparr>))))"

subsection \<open>\<open>evhandler_reg_callbk\<close> and \<open>iof_reg_callbk\<close>\<close>

definition reg_failed :: "int \<Rightarrow> action list" where
  \<comment> \<open>the diagnostic both registration callbacks print for a status other than success\<close>
  "reg_failed status =
     (if PMIX_SUCCESS \<noteq> status then [Stderr ''EVENT HANDLER REGISTRATION FAILED''] else [])"

definition evhandler_reg_callbk ::
  "int \<Rightarrow> nat \<Rightarrow> addr option \<Rightarrow> tool \<Rightarrow> action list \<times> unit outcome \<times> tool" where
  "evhandler_reg_callbk status evhandler_ref cbdata g =
     (case cbdata of
        None \<Rightarrow> (reg_failed status, Return (), g)
      | Some a \<Rightarrow>
          (case locks g a of
             None \<Rightarrow> (reg_failed status, Fault, g)
           | Some l \<Rightarrow>
               (reg_failed status @ [Wakeup (Lock a)], Return (),
                g\<lparr>locks := (locks g)(a \<mapsto> DEBUG_WAKEUP_THREAD (l\<lparr>lock_status := status\<rparr>))\<rparr>)))"

definition iof_reg_callbk ::
  "int \<Rightarrow> nat \<Rightarrow> addr option \<Rightarrow> tool \<Rightarrow> action list \<times> unit outcome \<times> tool" where
  "iof_reg_callbk status evhandler_ref cbdata g =
     (let g1 = g\<lparr>iof_handler_id := evhandler_ref\<rparr> in
      case cbdata of
        None \<Rightarrow> (reg_failed status, Return (), g1)
      | Some a \<Rightarrow>
          (if iof_registered g1 \<noteq> 0 then (reg_failed status, Return (), g1)
           else
             (case locks g1 a of
                None \<Rightarrow> (reg_failed status, Fault, g1\<lparr>iof_registered := 1\<rparr>)
              | Some l \<Rightarrow>
                  (reg_failed status @ [Wakeup (Lock a)], Return (),
                   g1\<lparr>iof_registered := 1,
                      locks := (locks g1)(a \<mapsto> DEBUG_WAKEUP_THREAD (l\<lparr>lock_status := status\<rparr>))\<rparr>))))"

text \<open>
  The registration callback of the I/O forwarding fires once for the registration and
  again for the deregistration: a list of firings, each with its status and handler
  reference, all with the same \<open>cbdata\<close>.
\<close>

fun iof_reg_firings ::
  "(int \<times> nat) list \<Rightarrow> addr option \<Rightarrow> tool \<Rightarrow> action list \<times> unit outcome \<times> tool" where
  "iof_reg_firings [] cbdata g = ([], Return (), g)"
| "iof_reg_firings ((status, evhandler_ref) # fs) cbdata g =
     (case iof_reg_callbk status evhandler_ref cbdata g of
        (out, Return u, g1) \<Rightarrow>
          (case iof_reg_firings fs cbdata g1 of (out', r, g2) \<Rightarrow> (out @ out', r, g2))
      | (out, r, g1) \<Rightarrow> (out, r, g1))"

section \<open>Namespace resolver: \<open>query_application_namespace\<close>\<close>

text \<open>
  A \<open>V_string\<close> holds the characters of a C string before its terminator, so \<open>strlen\<close>
  is the length and \<open>strchr\<close> gives the offset of the first occurrence. The length is
  kept in an \<open>int\<close>. \<open>strncpy\<close> copies \<open>len\<close> characters, none of them a terminator since
  \<open>len\<close> never exceeds the length of the source, and the terminator is stored behind
  them; both stay inside \<open>application_namespace\<close> only when \<open>len\<close> is at most
  \<open>PMIX_MAX_NSLEN\<close>.
\<close>

definition strchr :: "string \<Rightarrow> char \<Rightarrow> nat option" where
  "strchr s c = (if c \<in> set s then Some (length (takeWhile (\<lambda>x. x \<noteq> c) s)) else None)"

definition c_string :: "string \<Rightarrow> string" where
  \<comment> \<open>the C string that a character array holds\<close>
  "c_string buf = takeWhile (\<lambda>x. x \<noteq> NUL) buf"

definition namespace_query :: "pmix_h \<Rightarrow> string \<Rightarrow> call" where
  \<comment> \<open>the rank qualifier is the \<open>int\<close> \<open>wildcard_rank\<close>, loaded as a \<open>PMIX_INT32\<close>\<close>
  "namespace_query h nspace =
     PMIx_Query_info [PMIX_QUERY_NAMESPACES]
       [\<lparr>info_key = PMIX_NSPACE, info_value = V_string nspace\<rparr>,
        \<lparr>info_key = PMIX_RANK, info_value = V_int32 (to_int (PMIX_RANK_WILDCARD h))\<rparr>]"

definition wrong_format :: "action list" where
  "wrong_format = [Stderr ''The response to namespace query has wrong format.'']"

definition query_application_namespace ::
  "pmix_h \<Rightarrow> env \<Rightarrow> string \<Rightarrow> tool \<Rightarrow> action list \<times> int outcome \<times> tool" where
  "query_application_namespace h env nspace g =
     (if PMIX_SUCCESS \<noteq> argv_append_rc env
      then ([Stderr ''An error occurred creating namespace query.''], Return (- 1), g)
      else if PMIX_SUCCESS \<noteq> query_rc env
      then ([Call (namespace_query h nspace),
             Stderr (''An error occurred querying application namespace: ''
                       @ PMIx_Error_string h (query_rc env) @ ''.'')], Return (- 1), g)
      else
        (case query_data env of
           [d] \<Rightarrow>
             (case info_value d of
                V_string s \<Rightarrow>
                  (let len = to_int (case strchr s CHR '','' of
                                       None \<Rightarrow> int (length s)
                                     | Some p \<Rightarrow> int p)
                   in if 0 \<le> len \<and> nat len \<le> PMIX_MAX_NSLEN h
                      then ([Call (namespace_query h nspace)], Return 0,
                            g\<lparr>application_namespace :=
                                 take (nat len) s @ [NUL]
                                   @ drop (nat len + 1) (application_namespace g)\<rparr>)
                      else ([Call (namespace_query h nspace)], Fault, g))
              | _ \<Rightarrow> (Call (namespace_query h nspace) # wrong_format, Return (- 1), g))
         | _ \<Rightarrow> (Call (namespace_query h nspace) # wrong_format, Return (- 1), g)))"

section \<open>Attach orchestrator: \<open>attach_to_running_job\<close>\<close>

text \<open>
  The locals \<open>mylock\<close>, \<open>iof_lock\<close> and \<open>myrel\<close> of \<open>attach_to_running_job\<close> and the
  local \<open>mylock\<close> of \<open>main\<close> live at fixed, distinct places.
\<close>

definition main_mylock :: addr where "main_mylock = 0"
definition attach_mylock :: addr where "attach_mylock = 1"
definition attach_iof_lock :: addr where "attach_iof_lock = 2"
definition attach_myrel :: addr where "attach_myrel = 0"

definition flag :: "pmix_key \<Rightarrow> pmix_info_t" where
  \<comment> \<open>\<open>PMIX_INFO_LOAD(&info, key, NULL, PMIX_BOOL)\<close>\<close>
  "flag k = \<lparr>info_key = k, info_value = V_bool True\<rparr>"

definition spawn_directives :: "tool \<Rightarrow> pmix_info_t list" where
  "spawn_directives g =
     [\<lparr>info_key = PMIX_HOST, info_value = V_string ''c685f8n0x''\<rparr>,
      \<lparr>info_key = PMIX_MAPBY, info_value = V_string ''ppr:1:node''\<rparr>,
      flag PMIX_DEBUGGER_DAEMONS,
      \<lparr>info_key = PMIX_DEBUG_JOB, info_value = V_string (c_string (application_namespace g))\<rparr>,
      flag PMIX_FWD_STDOUT,
      flag PMIX_FWD_STDERR,
      flag PMIX_REQUESTOR_IS_TOOL]"

definition daemon_proc :: "pmix_h \<Rightarrow> env \<Rightarrow> pmix_proc_t" where
  \<comment> \<open>\<open>PMIX_PROC_LOAD(&daemon_proc, dspace, PMIX_RANK_WILDCARD)\<close>\<close>
  "daemon_proc h env = \<lparr>proc_nspace = spawn_nspace env, proc_rank = PMIX_RANK_WILDCARD h\<rparr>"

definition watch_qualifiers :: "pmix_h \<Rightarrow> env \<Rightarrow> pmix_info_t list" where
  "watch_qualifiers h env =
     [\<lparr>info_key = PMIX_EVENT_RETURN_OBJECT, info_value = V_pointer (Some attach_myrel)\<rparr>,
      \<lparr>info_key = PMIX_EVENT_AFFECTED_PROC, info_value = V_proc (Some (daemon_proc h env))\<rparr>]"

definition watch_registration :: "pmix_h \<Rightarrow> env \<Rightarrow> call" where
  \<comment> \<open>\<open>PMIx_Register_event_handler(&code, 1, info, 2, release_fn, ...)\<close> with
      \<open>code = PMIX_ERR_JOB_TERMINATED\<close>\<close>
  "watch_registration h env =
     PMIx_Register_event_handler [PMIX_ERR_JOB_TERMINATED h] (watch_qualifiers h env)"

text \<open>
  \<open>DEBUG_WAIT_THREAD(&myrel.lock)\<close>: while the tool waits, the forwarded chunks arrive
  and then the termination event, if any. The wait ends when the lock of \<open>myrel\<close> has
  been signaled.
\<close>

definition wait_terminated ::
  "pmix_h \<Rightarrow> env \<Rightarrow> int \<Rightarrow> tool \<Rightarrow> action list \<times> int outcome \<times> tool" where
  "wait_terminated h env rc g =
     (case deliver (iof g) (chunks env) of
        Return b \<Rightarrow>
          (case term_event env of
             None \<Rightarrow> ([Wait (Rel_lock attach_myrel)], Hang, g\<lparr>iof := b\<rparr>)
           | Some (info, cbfunc) \<Rightarrow>
               (case release_fn h info cbfunc (g\<lparr>iof := b\<rparr>) of
                  (out, Return u, g1) \<Rightarrow>
                    (Wait (Rel_lock attach_myrel) # out,
                     (case rels g1 attach_myrel of
                        None \<Rightarrow> Fault
                      | Some r \<Rightarrow> if signaled (rel_lock r) then Return rc else Hang),
                     g1)
                | (out, r, g1) \<Rightarrow> (Wait (Rel_lock attach_myrel) # out, Fault, g1)))
      | Exit n \<Rightarrow>
          ([Wait (Rel_lock attach_myrel), Stderr ''Unable to allocate I/O buffer, terminating''],
           Exit n, g)
      | _ \<Rightarrow> ([Wait (Rel_lock attach_myrel)], Fault, g))"

text \<open>
  The registration of the termination handler (source lines 441 to 454) and the wait
  for its registration callback on \<open>mylock\<close>. The fields \<open>exit_code\<close> and
  \<open>exit_code_given\<close> of the fresh \<open>myrel\<close> are not initialised by the source; the model
  starts them at 0 and false.
\<close>

definition watch_termination ::
  "pmix_h \<Rightarrow> env \<Rightarrow> tool \<Rightarrow> action list \<times> int outcome \<times> tool" where
  "watch_termination h env g =
     (let g1 = g\<lparr>rels := (rels g)(attach_myrel \<mapsto>
                      \<lparr>rel_lock = DEBUG_CONSTRUCT_LOCK, rel_nspace = spawn_nspace env,
                       rel_exit_code = 0, rel_exit_code_given = False\<rparr>),
                  locks := (locks g)(attach_mylock \<mapsto> DEBUG_CONSTRUCT_LOCK)\<rparr>;
          reg = [Call (watch_registration h env), Wait (Lock attach_mylock)]
      in case evhdlr_reg env of
           None \<Rightarrow> (reg, Hang, g1)
         | Some (status, evhandler_ref) \<Rightarrow>
             (case evhandler_reg_callbk status evhandler_ref (Some attach_mylock) g1 of
                (out, Return u, g2) \<Rightarrow>
                  (case locks g2 attach_mylock of
                     None \<Rightarrow> (reg @ out, Fault, g2)
                   | Some l \<Rightarrow>
                       if signaled l
                       then (case wait_terminated h env (lock_status l)
                                    (g2\<lparr>locks := (locks g2)(attach_mylock := None)\<rparr>) of
                               (out', r, g3) \<Rightarrow> (reg @ out @ out', r, g3))
                       else (reg @ out, Hang, g2))
              | (out, r, g2) \<Rightarrow> (reg @ out, Fault, g2)))"

text \<open>
  The registration of the I/O forwarding (source lines 423 to 435). The status of the
  call itself is overwritten by the status the callback left in \<open>iof_lock\<close>, and that one
  is overwritten in turn by the status of the handler registration: a failed
  registration of the forwarding does not stop the attach.
\<close>

definition pull_iof ::
  "pmix_h \<Rightarrow> env \<Rightarrow> tool \<Rightarrow> action list \<times> int outcome \<times> tool" where
  "pull_iof h env g =
     (let g1 = g\<lparr>locks := (locks g)(attach_iof_lock \<mapsto> DEBUG_CONSTRUCT_LOCK)\<rparr>;
          reg = [Call (PMIx_IOF_pull (daemon_proc h env) [flag PMIX_IOF_REDIRECT]),
                 Wait (Lock attach_iof_lock)]
      in case iof_reg env of
           None \<Rightarrow> (reg, Hang, g1)
         | Some (status, evhandler_ref) \<Rightarrow>
             (case iof_reg_callbk status evhandler_ref (Some attach_iof_lock) g1 of
                (out, Return u, g2) \<Rightarrow>
                  (case locks g2 attach_iof_lock of
                     None \<Rightarrow> (reg @ out, Fault, g2)
                   | Some l \<Rightarrow>
                       if signaled l
                       then (case watch_termination h env g2 of
                               (out', r, g3) \<Rightarrow> (reg @ out @ out', r, g3))
                       else (reg @ out, Hang, g2))
              | (out, r, g2) \<Rightarrow> (reg @ out, Fault, g2)))"

definition attach_to_running_job ::
  "pmix_h \<Rightarrow> env \<Rightarrow> string \<Rightarrow> tool \<Rightarrow> action list \<times> int outcome \<times> tool" where
  "attach_to_running_job h env nspace g =
     (case query_application_namespace h env nspace g of
        (out, Return ignored, g1) \<Rightarrow>
          (if PMIX_SUCCESS \<noteq> spawn_rc env
           then (out @ [Call (PMIx_Spawn (spawn_directives g1)),
                        Stderr (''Error spawning debugger daemon, ''
                                  @ PMIx_Error_string h (spawn_rc env))], Return (- 1), g1)
           else (case pull_iof h env g1 of
                   (out', r, g2) \<Rightarrow> (out @ Call (PMIx_Spawn (spawn_directives g1)) # out', r, g2)))
      | (out, r, g1) \<Rightarrow> (out, Fault, g1))"

section \<open>Termination watcher: registration, delivery and callback\<close>

text \<open>
  A termination event as the control plane raises it: its event code, the process it is
  about, its further attributes (the exit code, when the resource manager gives one) and
  whether a \<open>cbfunc\<close> comes with it.
\<close>

record pmix_event =
  ev_code :: int
  ev_affected :: pmix_proc_t
  ev_info :: "pmix_info_t list"
  ev_cbfunc :: bool

definition same_identity :: "pmix_h \<Rightarrow> pmix_proc_t \<Rightarrow> pmix_proc_t \<Rightarrow> bool" where
  \<comment> \<open>Modelled from the spec: the matching of process identities is done by the PMIx
      library, which is not among the sources. In the spec a process identity names a
      job, a specific rank within it, or all its ranks (wildcard): a process is the
      watched identity when it has its namespace and the watched rank is the wildcard or
      its own rank.\<close>
  "same_identity h watched p =
     (proc_nspace p = proc_nspace watched \<and>
      (proc_rank watched = PMIX_RANK_WILDCARD h \<or> proc_rank p = proc_rank watched))"

fun fires :: "pmix_h \<Rightarrow> call \<Rightarrow> pmix_event \<Rightarrow> pmix_info_t list option" where
  \<comment> \<open>Modelled from the spec: the delivery of events to a registered handler is done by
      the PMIx library, which is not among the sources. In the spec the subscription is
      scoped to an event code, qualified to fire only for the identity named by the
      affected-process qualifier, and carries the return-object qualifier back to the
      callback: the handler fires when the code of the event is a registered one and the
      process the event is about is the identity of every affected-process qualifier,
      and it is then handed the affected process, the attributes of the event and the
      return-object qualifier. \<open>None\<close>: the handler does not fire.\<close>
  "fires h (PMIx_Register_event_handler codes quals) ev =
     (if ev_code ev \<in> set codes \<and>
         list_all (\<lambda>q. if info_key q = PMIX_EVENT_AFFECTED_PROC
                        then (case data_proc h (info_value q) of
                                None \<Rightarrow> False
                              | Some w \<Rightarrow> same_identity h w (ev_affected ev))
                        else True) quals
      then Some (\<lparr>info_key = PMIX_EVENT_AFFECTED_PROC, info_value = V_proc (Some (ev_affected ev))\<rparr>
                   # ev_info ev
                   @ filter (\<lambda>q. info_key q = PMIX_EVENT_RETURN_OBJECT) quals)
      else None)"
| "fires h c ev = None"

text \<open>
  The watcher as a whole, for one event: the registration that \<open>attach_to_running_job\<close>
  makes, the delivery, and \<open>release_fn\<close> on what is delivered.
\<close>

definition notify_termination ::
  "pmix_h \<Rightarrow> env \<Rightarrow> pmix_event \<Rightarrow> tool \<Rightarrow> action list \<times> unit outcome \<times> tool" where
  "notify_termination h env ev g =
     (case fires h (watch_registration h env) ev of
        None \<Rightarrow> ([], Return (), g)
      | Some info \<Rightarrow> release_fn h info (ev_cbfunc ev) g)"

section \<open>Process boundary: \<open>main\<close>\<close>

definition usage :: "string list \<Rightarrow> action" where
  "usage argv =
     Stderr (''Usage: '' @ (case argv of [] \<Rightarrow> ''(null)'' | a # as \<Rightarrow> a) @ '' <attach_namespace>'')"

definition show_forwarded :: "tool \<Rightarrow> action list" where
  "show_forwarded g =
     (case iof_data (iof g) of
        None \<Rightarrow> []
      | Some blk \<Rightarrow> [Stdout (''Forwarded stdio data:'' @ [newline] @ block_string blk),
                     Stdout (''End forwarded stdio'' @ [newline])])"

text \<open>
  The part of \<open>main\<close> behind the default handler registration (source lines 323 to 336):
  the status of the attach is reported on the error stream, then \<open>rc\<close> is assigned the
  status of \<open>PMIx_IOF_deregister\<close>, and that is what \<open>main\<close> returns.
\<close>

definition attach_and_finish ::
  "pmix_h \<Rightarrow> env \<Rightarrow> string \<Rightarrow> tool \<Rightarrow> action list \<times> int outcome \<times> tool" where
  "attach_and_finish h env nspace g =
     (case attach_to_running_job h env nspace g of
        (out, Return rc, g1) \<Rightarrow>
          (out @ (if PMIX_SUCCESS \<noteq> rc then [Stderr ''Failed to attach to nspace''] else [])
             @ [Call (PMIx_IOF_deregister (iof_handler_id g1)), Call PMIx_tool_finalize]
             @ show_forwarded g1,
           Return (iof_dereg_rc env), g1)
      | (out, r, g1) \<Rightarrow> (out, r, g1))"

definition main :: "pmix_h \<Rightarrow> env \<Rightarrow> string list \<Rightarrow> action list \<times> int outcome \<times> tool" where
  "main h env argv =
     (let g = tool_start h in
      if length argv < 2 then ([usage argv], Exit 1, g)
      else if PMIX_SUCCESS \<noteq> init_rc env
      then ([Call PMIx_tool_init,
             Stderr (''PMIx_tool_init failed: '' @ PMIx_Error_string h (init_rc env))],
            Exit (init_rc env), g)
      else
        (let g1 = g\<lparr>locks := (locks g)(main_mylock \<mapsto> DEBUG_CONSTRUCT_LOCK)\<rparr>;
             reg = [Call PMIx_tool_init, Call (PMIx_Register_event_handler [] []),
                    Wait (Lock main_mylock)]
         in case default_reg env of
              None \<Rightarrow> (reg, Hang, g1)
            | Some (status, evhandler_ref) \<Rightarrow>
                (case evhandler_reg_callbk status evhandler_ref (Some main_mylock) g1 of
                   (out, Return u, g2) \<Rightarrow>
                     (case locks g2 main_mylock of
                        None \<Rightarrow> (reg @ out, Fault, g2)
                      | Some l \<Rightarrow>
                          if signaled l
                          then (case attach_and_finish h env (argv ! 1)
                                       (g2\<lparr>locks := (locks g2)(main_mylock := None)\<rparr>) of
                                  (out', r, g3) \<Rightarrow> (reg @ out @ out', r, g3))
                          else (reg @ out, Hang, g2))
                 | (out, r, g2) \<Rightarrow> (reg @ out, Fault, g2))))"

section \<open>SLURM remaining time: \<open>get_remaining_time\<close>\<close>

text \<open>
  The status codes of PRTE are an enumeration. The environment of the helper is the value
  of \<open>SLURM_JOBID\<close>, whether \<open>prte_asprintf\<close> fails, and what \<open>popen\<close> gives for a
  command: \<open>None\<close> when the pipe cannot be opened, \<open>Some None\<close> when \<open>fgets\<close> returns
  NULL, and otherwise the first line the command writes, of which \<open>fgets\<close> keeps at most
  255 characters.

  \<open>prte_argv_split\<close> and \<open>strtol\<close> are not among the sources and are parameters. The
  sum is accumulated in \<open>long\<close> and stored into the \<open>uint32_t\<close> after every step;
  \<open>res[cnt-1]\<close> with no field at all is a read outside the array.
\<close>

datatype prte_rc =
    PRTE_SUCCESS
  | PRTE_ERR_TAKE_NEXT_OPTION
  | PRTE_ERR_OUT_OF_RESOURCE
  | PRTE_ERR_FILE_OPEN_FAILURE
  | PRTE_ERR_FILE_READ_FAILURE

record slurm_env =
  SLURM_JOBID :: "string option"
  asprintf_fails :: bool
  popen :: "string \<Rightarrow> string option option"

definition squeue_cmd :: "string \<Rightarrow> string" where
  "squeue_cmd jobid = ''squeue -h -j '' @ jobid @ '' -o %L''"

definition get_remaining_time ::
  "(string \<Rightarrow> char \<Rightarrow> string list) \<Rightarrow> (string \<Rightarrow> int) \<Rightarrow> slurm_env
     \<Rightarrow> (prte_rc \<times> int) outcome" where
  "get_remaining_time prte_argv_split strtol env =
     (let timeleft = UINT32_MAX in
      case SLURM_JOBID env of
        None \<Rightarrow> Return (PRTE_ERR_TAKE_NEXT_OPTION, timeleft)
      | Some jobid \<Rightarrow>
          if asprintf_fails env then Return (PRTE_ERR_OUT_OF_RESOURCE, timeleft)
          else
            (case popen env (squeue_cmd jobid) of
               None \<Rightarrow> Return (PRTE_ERR_FILE_OPEN_FAILURE, timeleft)
             | Some None \<Rightarrow> Return (PRTE_ERR_FILE_READ_FAILURE, timeleft)
             | Some (Some line) \<Rightarrow>
                 (let res = prte_argv_split (take 255 line) CHR '':'';
                      cnt = length res
                  in if cnt = 0 then Fault
                     else
                       (let tleft = to_uint32 (strtol (res ! (cnt - 1)));
                            tleft = (if 1 < cnt
                                     then to_uint32 (tleft + 60 * strtol (res ! (cnt - 2)))
                                     else tleft);
                            tleft = (if 2 < cnt
                                     then to_uint32 (tleft + 3600 * strtol (res ! (cnt - 3)))
                                     else tleft);
                            tleft = (if 3 < cnt
                                     then to_uint32 (tleft + 24 * 3600 * strtol (res ! (cnt - 4)))
                                     else tleft);
                            tleft = (if 4 < cnt then UINT32_MAX else tleft)
                        in Return (PRTE_SUCCESS, tleft)))))"

section \<open>Reading traces and attribute lists\<close>

text \<open>
  The locks a trace wakes, in order; the number of namespace queries it submits; the
  registrations and waits in it; and the value an attribute list gives a key, which is
  the value of the last attribute with that key, as the loop of \<open>release_fn\<close> keeps it.
\<close>

fun wakeups :: "action list \<Rightarrow> lock_ref list" where
  "wakeups [] = []"
| "wakeups (Wakeup r # out) = r # wakeups out"
| "wakeups (x # out) = wakeups out"

fun queries :: "action list \<Rightarrow> nat" where
  "queries [] = 0"
| "queries (Call (PMIx_Query_info ks qs) # out) = Suc (queries out)"
| "queries (x # out) = queries out"

fun registrations :: "action list \<Rightarrow> action list" where
  "registrations [] = []"
| "registrations (Call (PMIx_IOF_pull p ds) # out) =
     Call (PMIx_IOF_pull p ds) # registrations out"
| "registrations (Call (PMIx_Register_event_handler cs qs) # out) =
     Call (PMIx_Register_event_handler cs qs) # registrations out"
| "registrations (Wait r # out) = Wait r # registrations out"
| "registrations (x # out) = registrations out"

fun spawns :: "action list \<Rightarrow> nat" where
  "spawns [] = 0"
| "spawns (Call (PMIx_Spawn ds) # out) = Suc (spawns out)"
| "spawns (x # out) = spawns out"

fun attribute :: "pmix_key \<Rightarrow> pmix_info_t list \<Rightarrow> pmix_value option" where
  "attribute k [] = None"
| "attribute k (i # info) =
     (case attribute k info of
        Some v \<Rightarrow> Some v
      | None \<Rightarrow> if info_key i = k then Some (info_value i) else None)"

definition return_object :: "pmix_h \<Rightarrow> pmix_info_t list \<Rightarrow> addr option" where
  \<comment> \<open>the return object an attribute list carries: the pointer member of its last
      return-object attribute, NULL when it has none\<close>
  "return_object h info =
     (case attribute PMIX_EVENT_RETURN_OBJECT info of None \<Rightarrow> None | Some v \<Rightarrow> data_ptr h v)"

section \<open>Sample inputs\<close>

text \<open>
  Concrete values on which the definitions above are run in the examples below: a header
  with a namespace length of 255, and the run of the tool in which the launcher
  \<open>launch.1\<close> answers with the application \<open>app.1\<close>, the daemon gets the namespace
  \<open>debug.1\<close>, writes two chunks and terminates with exit code 0.
\<close>

definition sample_h :: pmix_h where
  "sample_h =
     \<lparr>PMIX_MAX_NSLEN = 255, PMIX_RANK_WILDCARD = 4294967294, PMIX_ERR_JOB_TERMINATED = - 145,
      PMIX_EVENT_ACTION_COMPLETE = - 334,
      PMIx_Error_string = (\<lambda>rc. if rc = 0 then ''SUCCESS'' else ''ERROR''),
      other_as_ptr = (\<lambda>v. None), other_as_integer = (\<lambda>v. 1), other_as_proc = (\<lambda>v. None)\<rparr>"

definition sample_env :: env where
  "sample_env =
     \<lparr>init_rc = 0, default_reg = Some (0, 0), argv_append_rc = 0, query_rc = 0,
      query_data = [\<lparr>info_key = PMIX_QUERY_NAMESPACES, info_value = V_string ''app.1''\<rparr>],
      spawn_rc = 0, spawn_nspace = ''debug.1'', iof_reg = Some (0, 7), evhdlr_reg = Some (0, 1),
      chunks = [(True, ''hello ''), (True, ''world'' @ [newline])],
      term_event = Some ([\<lparr>info_key = PMIX_EVENT_RETURN_OBJECT,
                            info_value = V_pointer (Some attach_myrel)\<rparr>,
                          \<lparr>info_key = PMIX_EXIT_CODE, info_value = V_integer 0\<rparr>], True),
      iof_dereg_rc = 0\<rparr>"

text \<open>
  The state of the tool while it waits for the registration callback of the I/O
  forwarding, and the state while it waits for the daemon \<open>debug.1\<close> to terminate.
\<close>

definition sample_pulling :: tool where
  "sample_pulling =
     (tool_start sample_h)\<lparr>locks := (\<lambda>a. None)(attach_iof_lock \<mapsto> DEBUG_CONSTRUCT_LOCK)\<rparr>"

definition sample_watching :: tool where
  "sample_watching =
     (tool_start sample_h)\<lparr>rels := (\<lambda>a. None)(attach_myrel \<mapsto>
        \<lparr>rel_lock = DEBUG_CONSTRUCT_LOCK, rel_nspace = ''debug.1'',
         rel_exit_code = 0, rel_exit_code_given = False\<rparr>)\<rparr>"

text \<open>
  The termination, with exit code 0, of rank 0 of the job with the given namespace.
\<close>

definition sample_termination :: "string \<Rightarrow> pmix_event" where
  "sample_termination ns =
     \<lparr>ev_code = - 145, ev_affected = \<lparr>proc_nspace = ns, proc_rank = 0\<rparr>,
      ev_info = [\<lparr>info_key = PMIX_EXIT_CODE, info_value = V_integer 0\<rparr>], ev_cbfunc = True\<rparr>"

text \<open>
  A splitter that cuts at the delimiter and drops empty fields, and a reader of leading
  decimal digits, to stand for \<open>prte_argv_split\<close> and \<open>strtol\<close> in the examples.
\<close>

fun split_fields :: "string \<Rightarrow> string \<Rightarrow> char \<Rightarrow> string list" where
  "split_fields acc [] d = (if acc = [] then [] else [rev acc])"
| "split_fields acc (c # cs) d =
     (if c = d then (if acc = [] then [] else [rev acc]) @ split_fields [] cs d
      else split_fields (c # acc) cs d)"

fun digits_value :: "int \<Rightarrow> string \<Rightarrow> int" where
  "digits_value n [] = n"
| "digits_value n (c # cs) =
     (if (48::nat) \<le> of_char c \<and> (of_char c :: nat) \<le> 57
      then digits_value (10 * n + (int (of_char c) - 48)) cs else n)"

definition sample_slurm :: "string option option \<Rightarrow> slurm_env" where
  "sample_slurm answer =
     \<lparr>SLURM_JOBID = Some ''4711'', asprintf_fails = False, popen = (\<lambda>cmd. answer)\<rparr>"

section \<open>Properties of the stream aggregator\<close>

lemma to_int_id: "- 2147483648 \<le> x \<Longrightarrow> x \<le> 2147483647 \<Longrightarrow> to_int x = x"
  by (simp add: to_int_def)

lemma to_size_t_id: "0 \<le> x \<Longrightarrow> x < 18446744073709551616 \<Longrightarrow> to_size_t x = nat x"
  by (simp add: to_size_t_def)

lemma drop_cons_replicate: "(drop n (x # replicate n y))[0 := z] = [z]"
proof -
  have "length (drop n (x # replicate n y)) = 1" by simp
  then obtain w where "drop n (x # replicate n y) = [w]"
    by (cases "drop n (x # replicate n y)") auto
  then show ?thesis by simp
qed

lemma stdio_callback_first:
  assumes "int (length p) < INT_MAX"
  shows "stdio_callback True p \<lparr>iof_data = None, iof_size = z\<rparr>
           = Return \<lparr>iof_data = Some (map Some (p @ [NUL])), iof_size = int (length p)\<rparr>"
  using assms
  by (simp add: stdio_callback_def INT_MAX_def to_int_id to_size_t_id malloc_def memcpy_def
      store_byte_def Let_def list_update_append nat_add_distrib drop_cons_replicate)

lemma stdio_callback_next:
  assumes "int (length acc) + int (length p) < INT_MAX"
  shows "stdio_callback True p
           \<lparr>iof_data = Some (map Some (acc @ [NUL])), iof_size = int (length acc)\<rparr>
           = Return \<lparr>iof_data = Some (map Some ((acc @ p) @ [NUL])),
                     iof_size = int (length (acc @ p))\<rparr>"
  using assms
  by (simp add: stdio_callback_def INT_MAX_def to_int_id to_size_t_id realloc_def memcpy_def
      store_byte_def Let_def list_update_append nat_add_distrib drop_cons_replicate)

lemma deliver_from:
  assumes "iof_data g = Some (map Some (acc @ [NUL]))" and "iof_size g = int (length acc)"
    and "\<forall>c \<in> set cs. fst c"
    and "int (length acc) + int (length (payloads cs)) < INT_MAX"
  shows "deliver g cs = Return \<lparr>iof_data = Some (map Some ((acc @ payloads cs) @ [NUL])),
                               iof_size = int (length (acc @ payloads cs))\<rparr>"
  using assms
proof (induction cs arbitrary: g acc)
  case Nil
  then show ?case by (cases g) (simp add: payloads_def)
next
  case (Cons c cs)
  obtain ok p where c: "c = (ok, p)" by (cases c)
  from Cons.prems c have ok: ok by simp
  have g: "g = \<lparr>iof_data = Some (map Some (acc @ [NUL])), iof_size = int (length acc)\<rparr>"
    using Cons.prems(1,2) by (cases g) simp
  have bound: "int (length acc) + int (length p) < INT_MAX"
    using Cons.prems(4) c by (simp add: payloads_def)
  let ?g' = "\<lparr>iof_data = Some (map Some ((acc @ p) @ [NUL])), iof_size = int (length (acc @ p))\<rparr>"
  have step: "stdio_callback ok p g = Return ?g'"
    using stdio_callback_next [OF bound] ok g by simp
  have "deliver ?g' cs = Return \<lparr>iof_data = Some (map Some (((acc @ p) @ payloads cs) @ [NUL])),
                                 iof_size = int (length ((acc @ p) @ payloads cs))\<rparr>"
    using Cons.prems(3,4) c by (intro Cons.IH) (simp_all add: payloads_def)
  then show ?case using step c by (simp add: payloads_def)
qed

lemma deliver_all:
  assumes "cs \<noteq> []" and "\<forall>c \<in> set cs. fst c" and "int (length (payloads cs)) < INT_MAX"
  shows "deliver iof_init cs = Return \<lparr>iof_data = Some (map Some (payloads cs @ [NUL])),
                                      iof_size = int (length (payloads cs))\<rparr>"
proof -
  obtain ok p cs' where cs: "cs = (ok, p) # cs'" using assms(1) by (cases cs) auto
  have ok: ok using assms(2) cs by simp
  have b1: "int (length p) < INT_MAX" using assms(3) cs by (simp add: payloads_def)
  let ?g = "\<lparr>iof_data = Some (map Some (p @ [NUL])), iof_size = int (length p)\<rparr>"
  have first: "stdio_callback ok p iof_init = Return ?g"
    using stdio_callback_first [OF b1] ok by (simp add: iof_init_def)
  have "deliver ?g cs' = Return \<lparr>iof_data = Some (map Some ((p @ payloads cs') @ [NUL])),
                                 iof_size = int (length (p @ payloads cs'))\<rparr>"
    using assms(2,3) cs by (intro deliver_from) (simp_all add: payloads_def)
  then show ?thesis using first cs by (simp add: payloads_def)
qed

lemma length_payloads: "length (payloads cs) = sum_list (map (length \<circ> snd) cs)"
  by (simp add: payloads_def length_concat comp_def)

text \<open>
  C3, as the code has it. For every sequence of at least one chunk delivered in order to
  \<open>stdio_callback\<close>, when every allocation succeeds and the chunk lengths add up to less
  than \<open>INT_MAX\<close>, the handler returns for every chunk, the buffer afterwards holds the
  concatenation of the chunks followed by one terminator byte and nothing else, and
  \<open>iof_size\<close> is the sum of the chunk lengths.
\<close>

theorem stream_aggregator_concat:
  assumes "cs \<noteq> []"
    and "\<forall>c \<in> set cs. fst c"
    and "int (sum_list (map (length \<circ> snd) cs)) < INT_MAX"
  shows "deliver iof_init cs =
           Return \<lparr>iof_data = Some (map Some (concat (map snd cs) @ [NUL])),
                   iof_size = int (sum_list (map (length \<circ> snd) cs))\<rparr>"
  using deliver_all [OF assms(1,2)] assms(3)
  by (simp add: length_payloads) (simp add: payloads_def)

text \<open>The chunks \<open>hello \<close> and \<open>world\<close> leave an eleven byte string and its terminator.\<close>

theorem stream_aggregator_concat_witness:
  "deliver iof_init [(True, ''hello ''), (True, ''world'')] =
     Return \<lparr>iof_data = Some (map Some (''hello world'' @ [NUL])), iof_size = 11\<rparr>"
  using stream_aggregator_concat [of "[(True, ''hello ''), (True, ''world'')]"]
  by (simp add: INT_MAX_def)

text \<open>
  C3 as stated fails for the sequence of no chunks: the handler has not run, the buffer is
  still the NULL pointer and not the one terminator byte that the concatenation of no
  chunks followed by a terminator would be. \<open>main\<close> tests for this NULL before it prints.
\<close>

theorem stream_aggregator_no_chunk:
  "deliver iof_init [] = Return \<lparr>iof_data = None, iof_size = 0\<rparr> \<and>
   deliver iof_init [] \<noteq>
     Return \<lparr>iof_data = Some (map Some (concat (map snd []) @ [NUL])),
             iof_size = int (sum_list (map (length \<circ> snd) []))\<rparr>"
  by (simp add: iof_init_def)

section \<open>Properties of the remaining-time helper\<close>

lemma to_uint32_add_left: "to_uint32 (to_uint32 a + b) = to_uint32 (a + b)"
  by (simp add: to_uint32_def mod_add_left_eq)

lemma to_uint32_id: "0 \<le> x \<Longrightarrow> x \<le> UINT32_MAX \<Longrightarrow> to_uint32 x = x"
  by (simp add: to_uint32_def UINT32_MAX_def)

lemma remaining_time_error:
  assumes "get_remaining_time sp st env = Return (rc, t)" and "rc \<noteq> PRTE_SUCCESS"
  shows "t = UINT32_MAX"
  using assms
  by (auto simp add: get_remaining_time_def Let_def split: option.splits if_splits)

lemma remaining_time_fields:
  assumes "SLURM_JOBID env = Some jobid" and "\<not> asprintf_fails env"
    and "popen env (squeue_cmd jobid) = Some (Some line)"
    and "sp (take 255 line) CHR '':'' = res"
  shows "get_remaining_time sp st env =
           (case rev res of
              [] \<Rightarrow> Fault
            | [s] \<Rightarrow> Return (PRTE_SUCCESS, to_uint32 (st s))
            | [s, m] \<Rightarrow> Return (PRTE_SUCCESS, to_uint32 (st s + 60 * st m))
            | [s, m, h] \<Rightarrow> Return (PRTE_SUCCESS, to_uint32 (st s + 60 * st m + 3600 * st h))
            | [s, m, h, d] \<Rightarrow>
                Return (PRTE_SUCCESS, to_uint32 (st s + 60 * st m + 3600 * st h + 86400 * st d))
            | _ \<Rightarrow> Return (PRTE_SUCCESS, UINT32_MAX))"
proof -
  have nth_rev: "\<And>k. k < length res \<Longrightarrow> res ! (length res - Suc k) = rev res ! k"
    by (simp add: rev_nth)
  show ?thesis
    using assms nth_rev[of 0] nth_rev[of 1] nth_rev[of 2] nth_rev[of 3]
    apply (simp add: get_remaining_time_def Let_def to_uint32_add_left)
    apply (cases "rev res")
     apply simp
    subgoal for s r1
      apply (cases r1)
       apply simp
      subgoal for m r2
        apply (cases r2)
         apply (simp add: numeral_2_eq_2)
        subgoal for hh r3
          apply (cases r3)
           apply (simp add: numeral_3_eq_3 numeral_2_eq_2)
          subgoal for d r4
            apply (cases r4)
             apply (simp add: numeral_3_eq_3 numeral_2_eq_2 eval_nat_numeral)
            apply (simp add: numeral_3_eq_3 numeral_2_eq_2 eval_nat_numeral)
            done
          done
        done
      done
    done
qed

lemma remaining_time_long:
  assumes "SLURM_JOBID env = Some jobid" and "\<not> asprintf_fails env"
    and "popen env (squeue_cmd jobid) = Some (Some line)"
    and "4 < length (sp (take 255 line) CHR '':'')"
  shows "get_remaining_time sp st env = Return (PRTE_SUCCESS, UINT32_MAX)"
  using assms by (auto simp add: get_remaining_time_def Let_def)

text \<open>
  C10, as the code has it. \<open>get_remaining_time\<close> starts from the time left
  \<open>UINT32_MAX\<close>, and every return with a status other than success reports it: a
  missing \<open>SLURM_JOBID\<close>, a failed \<open>prte_asprintf\<close>, a pipe that cannot be opened and a
  failed read. When the line read splits into one to four fields, the helper succeeds and
  reports the last field plus 60 times the one before it, plus 3600 times the one before
  that, plus 86400 times the first of four, as it is stored into the \<open>uint32_t\<close>, that
  is, reduced modulo \<open>2^32\<close>; this is the sum itself whenever the sum is between 0 and
  \<open>UINT32_MAX\<close>. With more than four fields it succeeds and reports \<open>UINT32_MAX\<close>.
\<close>

theorem slurm_remaining_time:
  "(get_remaining_time sp st env = Return (rc, t) \<and> rc \<noteq> PRTE_SUCCESS \<longrightarrow> t = UINT32_MAX) \<and>
   (SLURM_JOBID env = None \<longrightarrow>
      get_remaining_time sp st env = Return (PRTE_ERR_TAKE_NEXT_OPTION, UINT32_MAX)) \<and>
   (SLURM_JOBID env = Some jobid \<and> asprintf_fails env \<longrightarrow>
      get_remaining_time sp st env = Return (PRTE_ERR_OUT_OF_RESOURCE, UINT32_MAX)) \<and>
   (SLURM_JOBID env = Some jobid \<and> \<not> asprintf_fails env \<and> popen env (squeue_cmd jobid) = None \<longrightarrow>
      get_remaining_time sp st env = Return (PRTE_ERR_FILE_OPEN_FAILURE, UINT32_MAX)) \<and>
   (SLURM_JOBID env = Some jobid \<and> \<not> asprintf_fails env
      \<and> popen env (squeue_cmd jobid) = Some None \<longrightarrow>
      get_remaining_time sp st env = Return (PRTE_ERR_FILE_READ_FAILURE, UINT32_MAX)) \<and>
   (SLURM_JOBID env = Some jobid \<and> \<not> asprintf_fails env
      \<and> popen env (squeue_cmd jobid) = Some (Some line) \<longrightarrow>
      (sp (take 255 line) CHR '':'' = [s] \<longrightarrow>
         get_remaining_time sp st env = Return (PRTE_SUCCESS, to_uint32 (st s))) \<and>
      (sp (take 255 line) CHR '':'' = [m, s] \<longrightarrow>
         get_remaining_time sp st env = Return (PRTE_SUCCESS, to_uint32 (st s + 60 * st m))) \<and>
      (sp (take 255 line) CHR '':'' = [hr, m, s] \<longrightarrow>
         get_remaining_time sp st env =
           Return (PRTE_SUCCESS, to_uint32 (st s + 60 * st m + 3600 * st hr))) \<and>
      (sp (take 255 line) CHR '':'' = [d, hr, m, s] \<longrightarrow>
         get_remaining_time sp st env =
           Return (PRTE_SUCCESS, to_uint32 (st s + 60 * st m + 3600 * st hr + 86400 * st d))) \<and>
      (4 < length (sp (take 255 line) CHR '':'') \<longrightarrow>
         get_remaining_time sp st env = Return (PRTE_SUCCESS, UINT32_MAX))) \<and>
   (0 \<le> x \<and> x \<le> UINT32_MAX \<longrightarrow> to_uint32 x = x)"
proof (intro conjI impI)
  show "t = UINT32_MAX"
    if "get_remaining_time sp st env = Return (rc, t) \<and> rc \<noteq> PRTE_SUCCESS"
    using that remaining_time_error by blast
  show "get_remaining_time sp st env = Return (PRTE_ERR_TAKE_NEXT_OPTION, UINT32_MAX)"
    if "SLURM_JOBID env = None"
    using that by (simp add: get_remaining_time_def)
  show "get_remaining_time sp st env = Return (PRTE_ERR_OUT_OF_RESOURCE, UINT32_MAX)"
    if "SLURM_JOBID env = Some jobid \<and> asprintf_fails env"
    using that by (simp add: get_remaining_time_def)
  show "get_remaining_time sp st env = Return (PRTE_ERR_FILE_OPEN_FAILURE, UINT32_MAX)"
    if "SLURM_JOBID env = Some jobid \<and> \<not> asprintf_fails env \<and> popen env (squeue_cmd jobid) = None"
    using that by (simp add: get_remaining_time_def)
  show "get_remaining_time sp st env = Return (PRTE_ERR_FILE_READ_FAILURE, UINT32_MAX)"
    if "SLURM_JOBID env = Some jobid \<and> \<not> asprintf_fails env
        \<and> popen env (squeue_cmd jobid) = Some None"
    using that by (simp add: get_remaining_time_def)
  show "to_uint32 x = x" if "0 \<le> x \<and> x \<le> UINT32_MAX"
    using that by (simp add: to_uint32_id)
next
  assume run: "SLURM_JOBID env = Some jobid \<and> \<not> asprintf_fails env
      \<and> popen env (squeue_cmd jobid) = Some (Some line)"
  then have j: "SLURM_JOBID env = Some jobid" and a: "\<not> asprintf_fails env"
    and p: "popen env (squeue_cmd jobid) = Some (Some line)"
    by simp_all
  note fields = remaining_time_fields [OF j a p, of sp _ st]
  show "get_remaining_time sp st env = Return (PRTE_SUCCESS, to_uint32 (st s))"
    if "sp (take 255 line) CHR '':'' = [s]"
    using fields [OF that] by simp
  show "get_remaining_time sp st env = Return (PRTE_SUCCESS, to_uint32 (st s + 60 * st m))"
    if "sp (take 255 line) CHR '':'' = [m, s]"
    using fields [OF that] by simp
  show "get_remaining_time sp st env =
          Return (PRTE_SUCCESS, to_uint32 (st s + 60 * st m + 3600 * st hr))"
    if "sp (take 255 line) CHR '':'' = [hr, m, s]"
    using fields [OF that] by simp
  show "get_remaining_time sp st env =
          Return (PRTE_SUCCESS, to_uint32 (st s + 60 * st m + 3600 * st hr + 86400 * st d))"
    if "sp (take 255 line) CHR '':'' = [d, hr, m, s]"
    using fields [OF that] by simp
  show "get_remaining_time sp st env = Return (PRTE_SUCCESS, UINT32_MAX)"
    if "4 < length (sp (take 255 line) CHR '':'')"
    using remaining_time_long [of env jobid line sp st] j a p that by simp
qed


text \<open>
  One hour, two minutes and three seconds are 3723 seconds; a pipe that cannot be opened
  leaves \<open>UINT32_MAX\<close>.
\<close>

theorem slurm_remaining_time_witness:
  "split_fields [] (take 255 ''1:02:03'') CHR '':'' = [''1'', ''02'', ''03''] \<and>
   get_remaining_time (split_fields []) (digits_value 0) (sample_slurm (Some (Some ''1:02:03'')))
     = Return (PRTE_SUCCESS, 3723) \<and>
   get_remaining_time (split_fields []) (digits_value 0) (sample_slurm None)
     = Return (PRTE_ERR_FILE_OPEN_FAILURE, 4294967295)"
proof -
  have f: "split_fields [] (take 255 ''1:02:03'') CHR '':'' = [''1'', ''02'', ''03'']"
    by simp
  have e: "SLURM_JOBID (sample_slurm a) = Some ''4711'' \<and> \<not> asprintf_fails (sample_slurm a)
            \<and> popen (sample_slurm a) (squeue_cmd ''4711'') = a" for a
    by (simp add: sample_slurm_def)
  have ok: "get_remaining_time (split_fields []) (digits_value 0)
              (sample_slurm (Some (Some ''1:02:03'')))
            = Return (PRTE_SUCCESS, to_uint32 (digits_value 0 ''03'' + 60 * digits_value 0 ''02''
                                                + 3600 * digits_value 0 ''1''))"
    using f e [of "Some (Some ''1:02:03'')"]
      slurm_remaining_time [where sp = "split_fields []" and st = "digits_value 0"
        and env = "sample_slurm (Some (Some ''1:02:03''))" and jobid = "''4711''"
        and line = "''1:02:03''" and s = "''03''" and m = "''02''" and hr = "''1''"
        and d = "[]" and rc = PRTE_SUCCESS and t = 0 and x = 0]
    by blast
  have err: "get_remaining_time (split_fields []) (digits_value 0) (sample_slurm None)
            = Return (PRTE_ERR_FILE_OPEN_FAILURE, UINT32_MAX)"
    using e [of None]
      slurm_remaining_time [where sp = "split_fields []" and st = "digits_value 0"
        and env = "sample_slurm None" and jobid = "''4711''"
        and line = "[]" and s = "[]" and m = "[]" and hr = "[]"
        and d = "[]" and rc = PRTE_SUCCESS and t = 0 and x = 0]
    by blast
  show ?thesis
    using f ok err by (simp add: to_uint32_def UINT32_MAX_def)
qed

text \<open>
  C10 as stated fails when the sum does not fit the \<open>uint32_t\<close>: for the four fields
  \<open>99999:0:0:0\<close> the sum is 8639913600 seconds, and the helper succeeds and reports
  49979008.
\<close>

theorem slurm_remaining_time_wraps:
  "split_fields [] (take 255 ''99999:0:0:0'') CHR '':'' = [''99999'', ''0'', ''0'', ''0''] \<and>
   digits_value 0 ''0'' + 60 * digits_value 0 ''0'' + 3600 * digits_value 0 ''0''
     + 86400 * digits_value 0 ''99999'' = 8639913600 \<and>
   get_remaining_time (split_fields []) (digits_value 0) (sample_slurm (Some (Some ''99999:0:0:0'')))
     = Return (PRTE_SUCCESS, 49979008) \<and>
   get_remaining_time (split_fields []) (digits_value 0) (sample_slurm (Some (Some ''99999:0:0:0'')))
     \<noteq> Return (PRTE_SUCCESS, 8639913600)"
  by (simp add: get_remaining_time_def sample_slurm_def squeue_cmd_def to_uint32_def
      UINT32_MAX_def Let_def)

section \<open>Properties of the registration callback of the I/O forwarding\<close>

lemma wakeups_append: "wakeups (xs @ ys) = wakeups xs @ wakeups ys"
  by (induction xs rule: wakeups.induct) simp_all

lemma wakeups_reg_failed: "wakeups (reg_failed status) = []"
  by (simp add: reg_failed_def)

lemma iof_reg_callbk_registered:
  assumes "iof_registered g \<noteq> 0"
  shows "iof_reg_callbk status evhandler_ref cbdata g =
           (reg_failed status, Return (), g\<lparr>iof_handler_id := evhandler_ref\<rparr>)"
  using assms by (simp add: iof_reg_callbk_def Let_def split: option.splits)

lemma iof_reg_callbk_first:
  assumes "iof_registered g = 0" and "locks g a = Some l"
  shows "iof_reg_callbk status evhandler_ref (Some a) g =
           (reg_failed status @ [Wakeup (Lock a)], Return (),
            g\<lparr>iof_handler_id := evhandler_ref, iof_registered := 1,
              locks := (locks g)(a \<mapsto> l\<lparr>lock_status := status, signaled := True\<rparr>)\<rparr>)"
  using assms by (simp add: iof_reg_callbk_def Let_def DEBUG_WAKEUP_THREAD_def)

lemma iof_reg_firings_registered:
  assumes "iof_registered g \<noteq> 0"
  shows "\<exists>out g'. iof_reg_firings fs cbdata g = (out, Return (), g') \<and> wakeups out = []
           \<and> locks g' = locks g \<and> iof_registered g' = iof_registered g"
  using assms
proof (induction fs arbitrary: g)
  case Nil
  then show ?case by simp
next
  case (Cons f fs)
  obtain status r where f: "f = (status, r)" by (cases f)
  let ?g1 = "g\<lparr>iof_handler_id := r\<rparr>"
  have "iof_registered ?g1 \<noteq> 0" using Cons.prems by simp
  from Cons.IH [OF this] obtain out g' where
    rest: "iof_reg_firings fs cbdata ?g1 = (out, Return (), g')" "wakeups out = []"
      "locks g' = locks ?g1" "iof_registered g' = iof_registered ?g1"
    by blast
  show ?case
    using rest f iof_reg_callbk_registered [OF Cons.prems, of status r cbdata]
    by (simp add: wakeups_append wakeups_reg_failed)
qed

lemma iof_reg_firings_first:
  assumes "iof_registered g = 0" and "locks g a = Some l"
  shows "\<exists>out g'. iof_reg_firings ((status, r) # fs) (Some a) g = (out, Return (), g')
           \<and> wakeups out = [Lock a]
           \<and> locks g' a = Some (l\<lparr>lock_status := status, signaled := True\<rparr>)"
proof -
  let ?g1 = "g\<lparr>iof_handler_id := r, iof_registered := 1,
              locks := (locks g)(a \<mapsto> l\<lparr>lock_status := status, signaled := True\<rparr>)\<rparr>"
  have "iof_registered ?g1 \<noteq> 0" by simp
  from iof_reg_firings_registered [OF this, of fs "Some a"] obtain out g' where
    rest: "iof_reg_firings fs (Some a) ?g1 = (out, Return (), g')" "wakeups out = []"
      "locks g' = locks ?g1"
    by blast
  show ?thesis
    using rest iof_reg_callbk_first [OF assms, of status r]
    by (simp add: wakeups_append wakeups_reg_failed)
qed

text \<open>
  C8. Once \<open>iof_registered\<close> is set, an invocation of \<open>iof_reg_callbk\<close> returns without
  waking any lock: it prints the diagnostic for a failed status, records the handler
  reference and changes nothing else, whatever \<open>cbdata\<close> is. The firing that finds the
  flag clear, with \<open>cbdata\<close> pointing to a live lock, sets the flag, stores the status in
  the lock and wakes it. So in every sequence of firings that starts with the flag clear,
  the lock is woken exactly once, by the first firing, and keeps the status of the first
  firing.
\<close>

theorem iof_registration_signals_once:
  "(iof_registered g \<noteq> 0 \<longrightarrow>
      iof_reg_callbk status evhandler_ref cbdata g =
        (reg_failed status, Return (), g\<lparr>iof_handler_id := evhandler_ref\<rparr>)) \<and>
   (iof_registered g = 0 \<and> locks g a = Some l \<longrightarrow>
      iof_reg_callbk status evhandler_ref (Some a) g =
        (reg_failed status @ [Wakeup (Lock a)], Return (),
         g\<lparr>iof_handler_id := evhandler_ref, iof_registered := 1,
           locks := (locks g)(a \<mapsto> l\<lparr>lock_status := status, signaled := True\<rparr>)\<rparr>)) \<and>
   (iof_registered g = 0 \<and> locks g a = Some l \<longrightarrow>
      (\<exists>out g'. iof_reg_firings ((status, evhandler_ref) # fs) (Some a) g = (out, Return (), g')
         \<and> wakeups out = [Lock a]
         \<and> locks g' a = Some (l\<lparr>lock_status := status, signaled := True\<rparr>))) \<and>
   wakeups (reg_failed status) = []"
  using iof_reg_callbk_registered iof_reg_callbk_first iof_reg_firings_first wakeups_reg_failed
  by blast

text \<open>
  The registration fires with status 0 and handler 7, and the deregistration fires later
  with status 5: one wake-up, and the lock keeps status 0.
\<close>

theorem iof_registration_signals_once_witness:
  "iof_registered sample_pulling = 0 \<and>
   locks sample_pulling attach_iof_lock = Some DEBUG_CONSTRUCT_LOCK \<and>
   (\<exists>out g'. iof_reg_firings [(0, 7), (5, 7)] (Some attach_iof_lock) sample_pulling
                = (out, Return (), g')
      \<and> wakeups out = [Lock attach_iof_lock]
      \<and> locks g' attach_iof_lock = Some \<lparr>signaled = True, lock_status = 0\<rparr>)"
proof -
  have h: "iof_registered sample_pulling = 0 \<and>
           locks sample_pulling attach_iof_lock = Some DEBUG_CONSTRUCT_LOCK"
    by (simp add: sample_pulling_def tool_start_def)
  have w: "\<exists>out g'. iof_reg_firings [(0, 7), (5, 7)] (Some attach_iof_lock) sample_pulling
                = (out, Return (), g')
      \<and> wakeups out = [Lock attach_iof_lock]
      \<and> locks g' attach_iof_lock
          = Some (DEBUG_CONSTRUCT_LOCK\<lparr>lock_status := 0, signaled := True\<rparr>)"
    using h iof_registration_signals_once [of sample_pulling 0 7 None attach_iof_lock
        DEBUG_CONSTRUCT_LOCK "[(5, 7)]"]
    by blast
  have r: "DEBUG_CONSTRUCT_LOCK\<lparr>lock_status := 0, signaled := True\<rparr>
             = \<lparr>signaled = True, lock_status = 0\<rparr>"
    by (simp add: DEBUG_CONSTRUCT_LOCK_def)
  show ?thesis
    using h w unfolding r by blast
qed

section \<open>Properties of the termination callback\<close>

lemma attribute_other: "info_key i \<noteq> k \<Longrightarrow> attribute k (i # info) = attribute k info"
  by (simp split: option.splits)

lemma attribute_same:
  "info_key i = k \<Longrightarrow>
     attribute k (i # info) =
       (case attribute k info of Some v \<Rightarrow> Some v | None \<Rightarrow> Some (info_value i))"
  by simp

lemma attribute_last: "info_key q = k \<Longrightarrow> attribute k (info @ [q]) = Some (info_value q)"
  by (induction info) simp_all

lemma release_scan_attribute:
  "release_scan h info s =
     \<lparr>scan_lock = (case attribute PMIX_EVENT_RETURN_OBJECT info of
                     None \<Rightarrow> scan_lock s | Some v \<Rightarrow> data_ptr h v),
      scan_found = (scan_found s \<or> attribute PMIX_EXIT_CODE info \<noteq> None),
      scan_exit_code = (case attribute PMIX_EXIT_CODE info of
                          None \<Rightarrow> scan_exit_code s | Some v \<Rightarrow> data_integer h v),
      scan_affected = (case attribute PMIX_EVENT_AFFECTED_PROC info of
                         None \<Rightarrow> scan_affected s | Some v \<Rightarrow> data_proc h v)\<rparr>"
proof (induction info arbitrary: s)
  case Nil
  show ?case by simp
next
  case (Cons i info)
  consider (ro) "info_key i = PMIX_EVENT_RETURN_OBJECT"
    | (ec) "info_key i = PMIX_EXIT_CODE"
    | (ap) "info_key i = PMIX_EVENT_AFFECTED_PROC"
    | (other) "info_key i \<noteq> PMIX_EVENT_RETURN_OBJECT" "info_key i \<noteq> PMIX_EXIT_CODE"
        "info_key i \<noteq> PMIX_EVENT_AFFECTED_PROC"
    by blast
  then show ?case
  proof cases
    case ro
    have step: "release_scan h (i # info) s
                  = release_scan h info (s\<lparr>scan_lock := data_ptr h (info_value i)\<rparr>)"
      using ro by simp
    show ?thesis
      unfolding step Cons.IH using ro
      by (cases "attribute PMIX_EVENT_RETURN_OBJECT info")
         (simp_all add: attribute_other attribute_same del: attribute.simps
            cong: option.case_cong)
  next
    case ec
    have step: "release_scan h (i # info) s
                  = release_scan h info
                      (s\<lparr>scan_exit_code := data_integer h (info_value i), scan_found := True\<rparr>)"
      using ec by simp
    show ?thesis
      unfolding step Cons.IH using ec
      by (cases "attribute PMIX_EXIT_CODE info")
         (simp_all add: attribute_other attribute_same del: attribute.simps
            cong: option.case_cong)
  next
    case ap
    have step: "release_scan h (i # info) s
                  = release_scan h info (s\<lparr>scan_affected := data_proc h (info_value i)\<rparr>)"
      using ap by simp
    show ?thesis
      unfolding step Cons.IH using ap
      by (cases "attribute PMIX_EVENT_AFFECTED_PROC info")
         (simp_all add: attribute_other attribute_same del: attribute.simps
            cong: option.case_cong)
  next
    case other
    have step: "release_scan h (i # info) s = release_scan h info s"
      using other by simp
    show ?thesis
      unfolding step Cons.IH using other
      by (simp add: attribute_other del: attribute.simps cong: option.case_cong)
  qed
qed

lemma scan_lock_return_object:
  "scan_lock (release_scan h info scan_start) = return_object h info"
  by (simp add: release_scan_attribute return_object_def scan_start_def
      cong: option.case_cong)


lemma release_fn_present:
  assumes "return_object h info = Some a" and "rels g a = Some r"
  shows "release_fn h info cbfunc g =
           (Wakeup (Rel_lock a) # event_done cbfunc (PMIX_EVENT_ACTION_COMPLETE h)
              @ [Wakeup (Rel_lock a)],
            Return (),
            g\<lparr>rels := (rels g)(a \<mapsto>
                 (case attribute PMIX_EXIT_CODE info of
                    None \<Rightarrow> r
                  | Some v \<Rightarrow> r\<lparr>rel_exit_code := data_integer h v, rel_exit_code_given := True\<rparr>)
                 \<lparr>rel_lock := (rel_lock r)\<lparr>signaled := True\<rparr>\<rparr>)\<rparr>)"
proof -
  have f: "scan_found (release_scan h info scan_start) = (attribute PMIX_EXIT_CODE info \<noteq> None)"
    by (simp add: release_scan_attribute scan_start_def cong: option.case_cong)
  have c: "attribute PMIX_EXIT_CODE info = Some v \<Longrightarrow>
             scan_exit_code (release_scan h info scan_start) = data_integer h v" for v
    by (simp add: release_scan_attribute)
  show ?thesis
  proof (cases "attribute PMIX_EXIT_CODE info")
    case None
    then show ?thesis
      using assms f
      by (simp add: release_fn_def Let_def scan_lock_return_object DEBUG_WAKEUP_THREAD_def)
  next
    case (Some v)
    then show ?thesis
      using assms f c [OF Some]
      by (simp add: release_fn_def Let_def scan_lock_return_object DEBUG_WAKEUP_THREAD_def)
  qed
qed

lemma wakeups_event_done: "wakeups (event_done cbfunc status) = []"
  by (simp add: event_done_def)



section \<open>Properties of the termination watcher\<close>

lemma fires_watch_registration:
  "fires h (watch_registration h env) ev =
     (if ev_code ev = PMIX_ERR_JOB_TERMINATED h
         \<and> same_identity h (daemon_proc h env) (ev_affected ev)
      then Some (\<lparr>info_key = PMIX_EVENT_AFFECTED_PROC,
                  info_value = V_proc (Some (ev_affected ev))\<rparr>
                   # ev_info ev
                   @ [\<lparr>info_key = PMIX_EVENT_RETURN_OBJECT,
                       info_value = V_pointer (Some attach_myrel)\<rparr>])
      else None)"
  by (simp add: watch_registration_def watch_qualifiers_def data_proc_def)

lemma return_object_last:
  "return_object h (info @ [\<lparr>info_key = PMIX_EVENT_RETURN_OBJECT, info_value = V_pointer p\<rparr>]) = p"
  by (simp add: return_object_def attribute_last data_ptr_def)

lemma notify_other:
  assumes "\<not> same_identity h (daemon_proc h env) (ev_affected ev)"
  shows "notify_termination h env ev g = ([], Return (), g)"
  using assms by (simp add: notify_termination_def fires_watch_registration)

lemma notify_daemon:
  assumes "proc_nspace (ev_affected ev) = spawn_nspace env"
    and "ev_code ev = PMIX_ERR_JOB_TERMINATED h"
    and "rels g attach_myrel = Some r"
  shows "wakeups (fst (notify_termination h env ev g)) = [Rel_lock attach_myrel, Rel_lock attach_myrel] \<and>
         map_option (\<lambda>r. signaled (rel_lock r))
           (rels (snd (snd (notify_termination h env ev g))) attach_myrel) = Some True"
proof -
  let ?info = "(\<lparr>info_key = PMIX_EVENT_AFFECTED_PROC, info_value = V_proc (Some (ev_affected ev))\<rparr>
                  # ev_info ev)
               @ [\<lparr>info_key = PMIX_EVENT_RETURN_OBJECT,
                   info_value = V_pointer (Some attach_myrel)\<rparr>]"
  have same: "same_identity h (daemon_proc h env) (ev_affected ev)"
    using assms(1) by (simp add: same_identity_def daemon_proc_def)
  have n: "notify_termination h env ev g = release_fn h ?info (ev_cbfunc ev) g"
    using same assms(2) by (simp add: notify_termination_def fires_watch_registration)
  have ro: "return_object h ?info = Some attach_myrel"
    by (rule return_object_last)
  show ?thesis
    unfolding n release_fn_present [OF ro assms(3)]
    by (simp add: wakeups_append wakeups_event_done)
qed

lemma watch_termination_registers:
  "hd (fst (watch_termination h env g)) = Call (watch_registration h env)"
  by (simp add: watch_termination_def Let_def split: option.splits prod.splits outcome.splits)

text \<open>
  C7. The Termination Watcher is the registration that \<open>attach_to_running_job\<close> makes
  (the handler \<open>release_fn\<close> for the job-terminated code, with the return object and
  with the affected-process qualifier naming the namespace the spawn returned and the
  wildcard rank), the delivery of events by the control plane, and \<open>release_fn\<close>. For
  every termination event whose affected process is not the watched daemon identity,
  the handler does not fire: no lock is woken and the state, the Termination Record
  included, stays as it was. So the lock is woken only for an event that concerns the
  watched daemon; and an event with the job-terminated code about any rank of the
  daemon's namespace does wake the lock of the record.
\<close>

theorem watcher_signals_only_for_daemon:
  "(\<not> same_identity h (daemon_proc h env) (ev_affected ev) \<longrightarrow>
      notify_termination h env ev g = ([], Return (), g)) \<and>
   (wakeups (fst (notify_termination h env ev g)) \<noteq> [] \<longrightarrow>
      same_identity h (daemon_proc h env) (ev_affected ev)) \<and>
   (proc_nspace (ev_affected ev) = spawn_nspace env \<and> ev_code ev = PMIX_ERR_JOB_TERMINATED h
    \<and> rels g attach_myrel = Some r \<longrightarrow>
      wakeups (fst (notify_termination h env ev g)) = [Rel_lock attach_myrel, Rel_lock attach_myrel] \<and>
      map_option (\<lambda>r. signaled (rel_lock r))
        (rels (snd (snd (notify_termination h env ev g))) attach_myrel) = Some True) \<and>
   hd (fst (watch_termination h env g)) = Call (watch_registration h env) \<and>
   watch_registration h env =
     PMIx_Register_event_handler [PMIX_ERR_JOB_TERMINATED h]
       [\<lparr>info_key = PMIX_EVENT_RETURN_OBJECT, info_value = V_pointer (Some attach_myrel)\<rparr>,
        \<lparr>info_key = PMIX_EVENT_AFFECTED_PROC,
         info_value = V_proc (Some \<lparr>proc_nspace = spawn_nspace env,
                                    proc_rank = PMIX_RANK_WILDCARD h\<rparr>)\<rparr>]"
proof (intro conjI impI)
  show "notify_termination h env ev g = ([], Return (), g)"
    if "\<not> same_identity h (daemon_proc h env) (ev_affected ev)"
    using that by (rule notify_other)
  show "same_identity h (daemon_proc h env) (ev_affected ev)"
    if "wakeups (fst (notify_termination h env ev g)) \<noteq> []"
  proof (rule ccontr)
    assume "\<not> same_identity h (daemon_proc h env) (ev_affected ev)"
    then have "notify_termination h env ev g = ([], Return (), g)" by (rule notify_other)
    with that show False by simp
  qed
  show "hd (fst (watch_termination h env g)) = Call (watch_registration h env)"
    by (rule watch_termination_registers)
  show "watch_registration h env =
     PMIx_Register_event_handler [PMIX_ERR_JOB_TERMINATED h]
       [\<lparr>info_key = PMIX_EVENT_RETURN_OBJECT, info_value = V_pointer (Some attach_myrel)\<rparr>,
        \<lparr>info_key = PMIX_EVENT_AFFECTED_PROC,
         info_value = V_proc (Some \<lparr>proc_nspace = spawn_nspace env,
                                    proc_rank = PMIX_RANK_WILDCARD h\<rparr>)\<rparr>]"
    by (simp add: watch_registration_def watch_qualifiers_def daemon_proc_def)
next
  assume a: "proc_nspace (ev_affected ev) = spawn_nspace env
    \<and> ev_code ev = PMIX_ERR_JOB_TERMINATED h \<and> rels g attach_myrel = Some r"
  then have d: "wakeups (fst (notify_termination h env ev g))
                  = [Rel_lock attach_myrel, Rel_lock attach_myrel] \<and>
         map_option (\<lambda>r. signaled (rel_lock r))
           (rels (snd (snd (notify_termination h env ev g))) attach_myrel) = Some True"
    using notify_daemon [of ev env h g r] by blast
  from d show "wakeups (fst (notify_termination h env ev g))
                 = [Rel_lock attach_myrel, Rel_lock attach_myrel]" by blast
  from d show "map_option (\<lambda>r. signaled (rel_lock r))
           (rels (snd (snd (notify_termination h env ev g))) attach_myrel) = Some True" by blast
qed

text \<open>
  The tool watches \<open>debug.1\<close>. The termination of rank 0 of \<open>other.9\<close> wakes nobody and
  leaves the record as it was; the termination of rank 0 of \<open>debug.1\<close> wakes the waiter.
\<close>

theorem watcher_signals_only_for_daemon_witness:
  "\<not> same_identity sample_h (daemon_proc sample_h sample_env)
       (ev_affected (sample_termination ''other.9'')) \<and>
   notify_termination sample_h sample_env (sample_termination ''other.9'') sample_watching
     = ([], Return (), sample_watching) \<and>
   wakeups (fst (notify_termination sample_h sample_env (sample_termination ''debug.1'')
                   sample_watching)) = [Rel_lock attach_myrel, Rel_lock attach_myrel] \<and>
   map_option (\<lambda>r. signaled (rel_lock r))
     (rels (snd (snd (notify_termination sample_h sample_env (sample_termination ''debug.1'')
                        sample_watching))) attach_myrel) = Some True"
proof -
  let ?r = "\<lparr>rel_lock = DEBUG_CONSTRUCT_LOCK, rel_nspace = ''debug.1'',
             rel_exit_code = 0, rel_exit_code_given = False\<rparr>"
  have live: "rels sample_watching attach_myrel = Some ?r"
    by (simp add: sample_watching_def)
  have other: "\<not> same_identity sample_h (daemon_proc sample_h sample_env)
                   (ev_affected (sample_termination ''other.9''))"
    by (simp add: same_identity_def daemon_proc_def sample_env_def sample_termination_def)
  have daemon: "proc_nspace (ev_affected (sample_termination ''debug.1'')) = spawn_nspace sample_env
     \<and> ev_code (sample_termination ''debug.1'') = PMIX_ERR_JOB_TERMINATED sample_h
     \<and> rels sample_watching attach_myrel = Some ?r"
    using live by (simp add: sample_env_def sample_termination_def sample_h_def)
  show ?thesis
    using other daemon
      watcher_signals_only_for_daemon [of sample_h sample_env "sample_termination ''other.9''"
        sample_watching ?r]
      watcher_signals_only_for_daemon [of sample_h sample_env "sample_termination ''debug.1''"
        sample_watching ?r]
    by blast
qed

section \<open>Properties of the namespace resolver\<close>

lemma c_string_terminated:
  assumes "NUL \<notin> set pre"
  shows "c_string (pre @ NUL # rest) = pre"
proof -
  have "\<And>x. x \<in> set pre \<Longrightarrow> x \<noteq> NUL" using assms by blast
  then have "takeWhile (\<lambda>x. x \<noteq> NUL) (pre @ NUL # rest)
               = pre @ takeWhile (\<lambda>x. x \<noteq> NUL) (NUL # rest)"
    by (rule takeWhile_append2)
  then show ?thesis by (simp add: c_string_def)
qed

lemma first_entry_length:
  "(case strchr s c of None \<Rightarrow> int (length s) | Some p \<Rightarrow> int p)
     = int (length (takeWhile (\<lambda>x. x \<noteq> c) s))"
proof (cases "c \<in> set s")
  case True
  then show ?thesis by (simp add: strchr_def)
next
  case False
  then have eq: "takeWhile (\<lambda>x. x \<noteq> c) s = s" by auto
  have "length (takeWhile (\<lambda>x. x \<noteq> c) s) = length s" by (simp only: eq)
  then show ?thesis using False by (simp only: strchr_def if_False option.case)
qed

lemma take_first_entry:
  "take (length (takeWhile P s)) s = takeWhile P s"
  by (metis takeWhile_eq_take)

lemma query_parses_first_entry:
  assumes "argv_append_rc env = PMIX_SUCCESS" and "query_rc env = PMIX_SUCCESS"
    and "query_data env = [d]" and "info_value d = V_string s"
    and "length (takeWhile (\<lambda>x. x \<noteq> CHR '','') s) \<le> PMIX_MAX_NSLEN h"
    and "int (PMIX_MAX_NSLEN h) \<le> INT_MAX"
  shows "query_application_namespace h env nspace g =
           ([Call (namespace_query h nspace)], Return 0,
            g\<lparr>application_namespace :=
                 takeWhile (\<lambda>x. x \<noteq> CHR '','') s
                   @ NUL # drop (Suc (length (takeWhile (\<lambda>x. x \<noteq> CHR '','') s)))
                            (application_namespace g)\<rparr>)"
proof -
  let ?n = "length (takeWhile (\<lambda>x. x \<noteq> CHR '','') s)"
  have "int ?n \<le> 2147483647" using assms(5,6) by (simp add: INT_MAX_def)
  then have len: "to_int (int ?n) = int ?n" by (simp add: to_int_id)
  show ?thesis
    using assms(1-5)
    by (simp add: query_application_namespace_def first_entry_length len take_first_entry)
qed

lemma query_fails:
  assumes "PMIX_SUCCESS \<noteq> argv_append_rc env \<or> PMIX_SUCCESS \<noteq> query_rc env
           \<or> length (query_data env) \<noteq> 1
           \<or> (\<forall>s. info_value (hd (query_data env)) \<noteq> V_string s)"
  shows "fst (snd (query_application_namespace h env nspace g)) = Return (- 1) \<and>
         snd (snd (query_application_namespace h env nspace g)) = g \<and>
         queries (fst (query_application_namespace h env nspace g)) \<le> 1"
proof (cases "query_data env")
  case Nil
  then show ?thesis
    by (simp add: query_application_namespace_def namespace_query_def wrong_format_def)
next
  case (Cons d ds)
  show ?thesis
  proof (cases ds)
    case Nil
    with Cons assms show ?thesis
      by (cases "info_value d")
         (auto simp add: query_application_namespace_def namespace_query_def wrong_format_def)
  next
    case (Cons d' ds')
    with \<open>query_data env = d # ds\<close> show ?thesis
      by (simp add: query_application_namespace_def namespace_query_def wrong_format_def)
  qed
qed

text \<open>
  C4, as the code has it. When the query succeeds with exactly one value, a string
  without embedded terminator whose first entry (the characters before the first comma,
  or the whole string when it has no comma) is at most \<open>PMIX_MAX_NSLEN\<close> characters
  long, the resolver submits one query, returns 0 and leaves that first entry, followed
  by a terminator, at the start of \<open>application_namespace\<close>: the C string in the array
  is the first entry. The header constant is assumed to fit an \<open>int\<close>.
\<close>

theorem namespace_first_entry:
  assumes "argv_append_rc env = PMIX_SUCCESS" and "query_rc env = PMIX_SUCCESS"
    and "query_data env = [d]" and "info_value d = V_string s"
    and "NUL \<notin> set s"
    and "length (takeWhile (\<lambda>x. x \<noteq> CHR '','') s) \<le> PMIX_MAX_NSLEN h"
    and "int (PMIX_MAX_NSLEN h) \<le> INT_MAX"
  shows "query_application_namespace h env nspace g =
           ([Call (namespace_query h nspace)], Return 0,
            g\<lparr>application_namespace :=
                 takeWhile (\<lambda>x. x \<noteq> CHR '','') s
                   @ NUL # drop (Suc (length (takeWhile (\<lambda>x. x \<noteq> CHR '','') s)))
                            (application_namespace g)\<rparr>) \<and>
         c_string (application_namespace
                     (snd (snd (query_application_namespace h env nspace g))))
           = takeWhile (\<lambda>x. x \<noteq> CHR '','') s \<and>
         (CHR '','' \<notin> set s \<longrightarrow> takeWhile (\<lambda>x. x \<noteq> CHR '','') s = s)"
proof -
  have "NUL \<notin> set (takeWhile (\<lambda>x. x \<noteq> CHR '','') s)"
    using assms(5) by (auto dest: set_takeWhileD)
  then show ?thesis
    using query_parses_first_entry [OF assms(1-4) assms(6,7), of nspace g]
    by (auto simp add: c_string_terminated)
qed

text \<open>
  The answer \<open>app123,dbg456\<close> gives \<open>app123\<close>, and so does the answer \<open>app123\<close>.
\<close>

theorem namespace_first_entry_witness:
  "c_string (application_namespace (snd (snd (query_application_namespace sample_h
      (sample_env\<lparr>query_data := [\<lparr>info_key = PMIX_QUERY_NAMESPACES,
                                     info_value = V_string ''app123,dbg456''\<rparr>]\<rparr>)
      ''launch.1'' (tool_start sample_h))))) = ''app123'' \<and>
   c_string (application_namespace (snd (snd (query_application_namespace sample_h
      (sample_env\<lparr>query_data := [\<lparr>info_key = PMIX_QUERY_NAMESPACES,
                                     info_value = V_string ''app123''\<rparr>]\<rparr>)
      ''launch.1'' (tool_start sample_h))))) = ''app123''"
proof -
  let ?both = "sample_env\<lparr>query_data := [\<lparr>info_key = PMIX_QUERY_NAMESPACES,
                                          info_value = V_string ''app123,dbg456''\<rparr>]\<rparr>"
  let ?one = "sample_env\<lparr>query_data := [\<lparr>info_key = PMIX_QUERY_NAMESPACES,
                                         info_value = V_string ''app123''\<rparr>]\<rparr>"
  have ok: "argv_append_rc ?both = PMIX_SUCCESS" "query_rc ?both = PMIX_SUCCESS"
    "argv_append_rc ?one = PMIX_SUCCESS" "query_rc ?one = PMIX_SUCCESS"
    by (simp_all add: sample_env_def PMIX_SUCCESS_def)
  have d: "query_data ?both = [\<lparr>info_key = PMIX_QUERY_NAMESPACES,
                                  info_value = V_string ''app123,dbg456''\<rparr>]"
    "query_data ?one = [\<lparr>info_key = PMIX_QUERY_NAMESPACES, info_value = V_string ''app123''\<rparr>]"
    by simp_all
  have v: "info_value \<lparr>info_key = PMIX_QUERY_NAMESPACES, info_value = V_string ''app123,dbg456''\<rparr>
             = V_string ''app123,dbg456''"
    "info_value \<lparr>info_key = PMIX_QUERY_NAMESPACES, info_value = V_string ''app123''\<rparr>
             = V_string ''app123''"
    by simp_all
  have n: "NUL \<notin> set ''app123,dbg456''" "NUL \<notin> set ''app123''"
    by (simp_all add: NUL_def)
  have p: "takeWhile (\<lambda>x. x \<noteq> CHR '','') ''app123,dbg456'' = ''app123''"
    "takeWhile (\<lambda>x. x \<noteq> CHR '','') ''app123'' = ''app123''"
    by simp_all
  have l: "length (takeWhile (\<lambda>x. x \<noteq> CHR '','') ''app123,dbg456'') \<le> PMIX_MAX_NSLEN sample_h"
    "length (takeWhile (\<lambda>x. x \<noteq> CHR '','') ''app123'') \<le> PMIX_MAX_NSLEN sample_h"
    unfolding p by (simp_all add: sample_h_def)
  have m: "int (PMIX_MAX_NSLEN sample_h) \<le> INT_MAX"
    by (simp add: sample_h_def INT_MAX_def)
  show ?thesis
    using namespace_first_entry [OF ok(1,2) d(1) v(1) n(1) l(1) m, of "''launch.1''"
        "tool_start sample_h", THEN conjunct2, THEN conjunct1]
      namespace_first_entry [OF ok(3,4) d(2) v(2) n(2) l(2) m, of "''launch.1''"
        "tool_start sample_h", THEN conjunct2, THEN conjunct1]
    unfolding p by (rule conjI)
qed

text \<open>
  C4 as stated fails for a first entry longer than the array: with the namespace length
  255 and an answer of 256 letters, the terminator would be stored behind the end of
  \<open>application_namespace\<close>, and the resolver has no result to give.
\<close>

theorem namespace_entry_too_long:
  "fst (snd (query_application_namespace sample_h
      (sample_env\<lparr>query_data := [\<lparr>info_key = PMIX_QUERY_NAMESPACES,
                                     info_value = V_string (replicate 256 CHR ''a'')\<rparr>]\<rparr>)
      ''launch.1'' (tool_start sample_h))) = Fault"
  by code_simp

text \<open>
  C5. Whenever the query submission fails, or the number of records returned is not one,
  or the one value returned is not a string, \<open>query_application_namespace\<close> returns
  the failure status -1 (it does not fault), leaves \<open>application_namespace\<close> and the
  rest of the state as they were, and has submitted the query at most once. The same
  holds when the query cannot be built.
\<close>

theorem namespace_resolution_failure:
  assumes "PMIX_SUCCESS \<noteq> argv_append_rc env \<or> PMIX_SUCCESS \<noteq> query_rc env
           \<or> length (query_data env) \<noteq> 1
           \<or> (\<forall>s. info_value (hd (query_data env)) \<noteq> V_string s)"
  shows "fst (snd (query_application_namespace h env nspace g)) = Return (- 1) \<and>
         snd (snd (query_application_namespace h env nspace g)) = g \<and>
         queries (fst (query_application_namespace h env nspace g)) \<le> 1"
  using query_fails [OF assms] .

text \<open>
  A failed submission, an answer of two records and an answer that is an integer.
\<close>

theorem namespace_resolution_failure_witness:
  "fst (snd (query_application_namespace sample_h (sample_env\<lparr>query_rc := - 1\<rparr>)
               ''launch.1'' (tool_start sample_h))) = Return (- 1) \<and>
   fst (snd (query_application_namespace sample_h
               (sample_env\<lparr>query_data := query_data sample_env @ query_data sample_env\<rparr>)
               ''launch.1'' (tool_start sample_h))) = Return (- 1) \<and>
   fst (snd (query_application_namespace sample_h
               (sample_env\<lparr>query_data := [\<lparr>info_key = PMIX_QUERY_NAMESPACES,
                                              info_value = V_integer 7\<rparr>]\<rparr>)
               ''launch.1'' (tool_start sample_h))) = Return (- 1)"
proof -
  have h1: "PMIX_SUCCESS \<noteq> argv_append_rc (sample_env\<lparr>query_rc := - 1\<rparr>)
            \<or> PMIX_SUCCESS \<noteq> query_rc (sample_env\<lparr>query_rc := - 1\<rparr>)
            \<or> length (query_data (sample_env\<lparr>query_rc := - 1\<rparr>)) \<noteq> 1
            \<or> (\<forall>s. info_value (hd (query_data (sample_env\<lparr>query_rc := - 1\<rparr>))) \<noteq> V_string s)"
    by (simp add: PMIX_SUCCESS_def)
  let ?two = "sample_env\<lparr>query_data := query_data sample_env @ query_data sample_env\<rparr>"
  have h2: "PMIX_SUCCESS \<noteq> argv_append_rc ?two \<or> PMIX_SUCCESS \<noteq> query_rc ?two
            \<or> length (query_data ?two) \<noteq> 1
            \<or> (\<forall>s. info_value (hd (query_data ?two)) \<noteq> V_string s)"
    by (simp add: sample_env_def)
  let ?int = "sample_env\<lparr>query_data := [\<lparr>info_key = PMIX_QUERY_NAMESPACES,
                                         info_value = V_integer 7\<rparr>]\<rparr>"
  have h3: "PMIX_SUCCESS \<noteq> argv_append_rc ?int \<or> PMIX_SUCCESS \<noteq> query_rc ?int
            \<or> length (query_data ?int) \<noteq> 1
            \<or> (\<forall>s. info_value (hd (query_data ?int)) \<noteq> V_string s)"
    by simp
  show ?thesis
    using namespace_resolution_failure [OF h1, of sample_h "''launch.1''" "tool_start sample_h"]
      namespace_resolution_failure [OF h2, of sample_h "''launch.1''" "tool_start sample_h"]
      namespace_resolution_failure [OF h3, of sample_h "''launch.1''" "tool_start sample_h"]
    by blast
qed

section \<open>Properties of the attach orchestrator and the process boundary\<close>








text \<open>
  C1 fails on the code. The query is submitted and fails with status -1, and
  \<open>query_application_namespace\<close> returns -1; \<open>attach_to_running_job\<close> drops that
  status, calls the spawn all the same, registers the I/O forwarding and the termination
  handler, waits, and returns 0; and \<open>main\<close> returns 0.
\<close>

theorem resolution_failure_still_spawns:
  "fst (snd (query_application_namespace sample_h (sample_env\<lparr>query_rc := - 1\<rparr>) ''launch.1''
               (tool_start sample_h))) = Return (- 1) \<and>
   spawns (fst (attach_to_running_job sample_h (sample_env\<lparr>query_rc := - 1\<rparr>) ''launch.1''
                  (tool_start sample_h))) = 1 \<and>
   length (registrations (fst (attach_to_running_job sample_h (sample_env\<lparr>query_rc := - 1\<rparr>)
                                 ''launch.1'' (tool_start sample_h)))) = 5 \<and>
   fst (snd (attach_to_running_job sample_h (sample_env\<lparr>query_rc := - 1\<rparr>) ''launch.1''
               (tool_start sample_h))) = Return 0 \<and>
   fst (snd (main sample_h (sample_env\<lparr>query_rc := - 1\<rparr>) [''attach'', ''launch.1''])) = Return 0"
  by code_simp

text \<open>
  C2 fails on the code. \<open>main\<close> assigns the status of \<open>PMIx_IOF_deregister\<close> to \<open>rc\<close>
  after the attach and returns that. When the spawn fails with -25 the attach sequence
  returns -1, \<open>main\<close> reports the failed attach on the error stream and returns 0, the
  status of the deregistration. When the attach succeeds and the deregistration returns
  -1, \<open>main\<close> returns -1. With no argument, \<open>main\<close> writes the usage message and exits
  with 1.
\<close>

theorem exit_code_is_deregister_status:
  "fst (snd (main sample_h (sample_env\<lparr>spawn_rc := - 25\<rparr>) [''attach'', ''launch.1'']))
     = Return 0 \<and>
   Stderr ''Failed to attach to nspace''
     \<in> set (fst (main sample_h (sample_env\<lparr>spawn_rc := - 25\<rparr>) [''attach'', ''launch.1''])) \<and>
   fst (snd (main sample_h (sample_env\<lparr>iof_dereg_rc := - 1\<rparr>) [''attach'', ''launch.1'']))
     = Return (- 1) \<and>
   Stderr ''Failed to attach to nspace''
     \<notin> set (fst (main sample_h (sample_env\<lparr>iof_dereg_rc := - 1\<rparr>) [''attach'', ''launch.1''])) \<and>
   fst (main sample_h sample_env [''attach'']) = [Stderr ''Usage: attach <attach_namespace>''] \<and>
   fst (snd (main sample_h sample_env [''attach''])) = Exit 1"
  by (intro conjI; code_simp)

end
